theory Spec2Isabelle
  imports Complex_Main "HOL-Library.AList"
begin

section \<open>JavaScript values\<close>

text \<open>
  The values the storage wrappers read, write and compare. A number is a rational (every
  finite double is one) or \<open>NaN\<close>, and arithmetic on numbers is exact: rounding to a
  double is not modelled. Strings are lists of characters, and an object is the list of
  its own properties in enumeration order.
\<close>

datatype jsval =
    JNull
  | JBool bool
  | JNum rat
  | JNaN
  | JStr string
  | JArr "jsval list"
  | JObj "(string \<times> jsval) list"

datatype error = Error string | TypeError string | SyntaxError string

text \<open>Truthiness, as tested by \<open>!x\<close>, \<open>x || y\<close>, \<open>x && y\<close> and \<open>x ? a : b\<close>.\<close>

fun truthy :: "jsval \<Rightarrow> bool" where
  "truthy JNull = False"
| "truthy (JBool b) = b"
| "truthy (JNum n) = (n \<noteq> 0)"
| "truthy JNaN = False"
| "truthy (JStr s) = (s \<noteq> [])"
| "truthy (JArr xs) = True"
| "truthy (JObj ms) = True"

definition js_or :: "jsval \<Rightarrow> jsval \<Rightarrow> jsval" where
  "js_or a b = (if truthy a then a else b)"

fun Array_isArray :: "jsval \<Rightarrow> bool" where
  "Array_isArray (JArr xs) = True"
| "Array_isArray v = False"

fun is_primitive :: "jsval \<Rightarrow> bool" where
  "is_primitive (JArr xs) = False"
| "is_primitive (JObj ms) = False"
| "is_primitive v = True"

fun is_string :: "jsval \<Rightarrow> bool" where
  "is_string (JStr s) = True"
| "is_string v = False"

text \<open>
  \<open>SameValueZero\<close>, the comparison of \<open>Array.prototype.includes\<close> and of \<open>Set\<close>:
  primitives are compared by value, arrays and objects by reference. Every occurrence of
  an array or object is taken to be a reference of its own: what \<open>JSON.parse\<close> returns
  is freshly allocated, so it is never the reference a caller passes in, and a caller is
  taken not to pass one reference twice.
\<close>

definition SameValueZero :: "jsval \<Rightarrow> jsval \<Rightarrow> bool" where
  "SameValueZero x y = (is_primitive x \<and> x = y)"

definition Array_includes :: "jsval list \<Rightarrow> jsval \<Rightarrow> bool" where
  "Array_includes xs item = list_ex (\<lambda>x. SameValueZero x item) xs"




fun elements :: "jsval \<Rightarrow> jsval list" where
  "elements (JArr xs) = xs"
| "elements v = []"

subsection \<open>The built-in conversions\<close>

text \<open>
  \<open>JSON.parse\<close>, \<open>JSON.stringify\<close> and the conversions between numbers and strings
  belong to the JavaScript engine, not to the repository: the wrappers are modelled over
  any engine. \<open>JSON.parse\<close> and \<open>JSON.stringify\<close> return or throw, and the conversion of
  a string to a number gives \<open>None\<close> for \<open>NaN\<close>.
\<close>

record builtins =
  JSON_parse :: "string \<Rightarrow> error + jsval"
  JSON_stringify :: "jsval \<Rightarrow> error + string"
  Number_toString :: "rat \<Rightarrow> string"
  StringToNumber :: "string \<Rightarrow> rat option"

fun join_comma :: "string list \<Rightarrow> string" where
  "join_comma [] = []"
| "join_comma [x] = x"
| "join_comma (x # y # ys) = x @ CHR '','' # join_comma (y # ys)"

text \<open>\<open>ToString\<close>, \<open>ToNumber\<close> and the operators \<open>+\<close> and \<open>-\<close>.\<close>

fun ToString :: "builtins \<Rightarrow> jsval \<Rightarrow> string" where
  "ToString J JNull = ''null''"
| "ToString J (JBool b) = (if b then ''true'' else ''false'')"
| "ToString J (JNum n) = Number_toString J n"
| "ToString J JNaN = ''NaN''"
| "ToString J (JStr s) = s"
| "ToString J (JArr xs) =
     join_comma (map (\<lambda>x. if x = JNull then [] else ToString J x) xs)"
| "ToString J (JObj ms) = ''[object Object]''"

fun ToNumber :: "builtins \<Rightarrow> jsval \<Rightarrow> rat option" where
  "ToNumber J JNull = Some 0"
| "ToNumber J (JBool b) = Some (if b then 1 else 0)"
| "ToNumber J (JNum n) = Some n"
| "ToNumber J JNaN = None"
| "ToNumber J (JStr s) = StringToNumber J s"
| "ToNumber J (JArr xs) = StringToNumber J (ToString J (JArr xs))"
| "ToNumber J (JObj ms) = None"

definition of_number :: "rat option \<Rightarrow> jsval" where
  "of_number r = (case r of None \<Rightarrow> JNaN | Some n \<Rightarrow> JNum n)"

definition js_plus :: "builtins \<Rightarrow> jsval \<Rightarrow> jsval \<Rightarrow> jsval" where
  "js_plus J a b =
     (if is_string a \<or> \<not> is_primitive a \<or> is_string b \<or> \<not> is_primitive b
      then JStr (ToString J a @ ToString J b)
      else of_number (case (ToNumber J a, ToNumber J b) of
                        (Some x, Some y) \<Rightarrow> Some (x + y)
                      | _ \<Rightarrow> None))"

definition js_minus :: "builtins \<Rightarrow> jsval \<Rightarrow> jsval \<Rightarrow> jsval" where
  "js_minus J a b =
     of_number (case (ToNumber J a, ToNumber J b) of
                  (Some x, Some y) \<Rightarrow> Some (x - y)
                | _ \<Rightarrow> None)"

section \<open>Effects\<close>

text \<open>
  An asynchronous function is a state transformer on the world that either returns a
  value or throws: \<open>Inl\<close> is the exception (a rejected promise), \<open>Inr\<close> the value. The
  world is the state of the store behind the wrapper and what was written to the console.
\<close>

datatype log_line =
    ConsoleError string error
  | ConsoleErrorMessage string string
  | ConsoleErrorLine string
  | ConsoleLog string

record 's world =
  store :: 's
  console :: "log_line list"

type_synonym ('a, 's) js = "'s world \<Rightarrow> (error + 'a) \<times> 's world"

definition js_return :: "'a \<Rightarrow> ('a, 's) js" where
  "js_return x w = (Inr x, w)"

definition js_throw :: "error \<Rightarrow> ('a, 's) js" where
  "js_throw e w = (Inl e, w)"

definition js_result :: "error + 'a \<Rightarrow> ('a, 's) js" where
  "js_result r w = (r, w)"

definition js_bind :: "('a, 's) js \<Rightarrow> ('a \<Rightarrow> ('b, 's) js) \<Rightarrow> ('b, 's) js" where
  "js_bind m f w = (case m w of (Inl e, w') \<Rightarrow> (Inl e, w') | (Inr x, w') \<Rightarrow> f x w')"

text \<open>\<open>try { m } catch (error) { h error }\<close>\<close>

definition js_try :: "('a, 's) js \<Rightarrow> (error \<Rightarrow> ('a, 's) js) \<Rightarrow> ('a, 's) js" where
  "js_try m h w = (case m w of (Inl e, w') \<Rightarrow> h e w' | (Inr x, w') \<Rightarrow> (Inr x, w'))"

definition console_error :: "string \<Rightarrow> error \<Rightarrow> (unit, 's) js" where
  "console_error msg e w = (Inr (), w\<lparr>console := console w @ [ConsoleError msg e]\<rparr>)"

definition console_error_message :: "string \<Rightarrow> string \<Rightarrow> (unit, 's) js" where
  "console_error_message msg t w = (Inr (), w\<lparr>console := console w @ [ConsoleErrorMessage msg t]\<rparr>)"

definition console_log :: "string \<Rightarrow> (unit, 's) js" where
  "console_log msg w = (Inr (), w\<lparr>console := console w @ [ConsoleLog msg]\<rparr>)"

fun message :: "error \<Rightarrow> string" where
  "message (Error m) = m"
| "message (TypeError m) = m"
| "message (SyntaxError m) = m"

text \<open>
  \<open>await Promise.all(xs.map(f))\<close>. The calls run concurrently: \<open>order\<close> lists the
  indices in the order in which the calls complete, and the result holds the value of
  each call at the index of its argument. An \<open>order\<close> that is not an arrangement of the
  indices stands for the order of the list.
\<close>

fun js_each :: "(nat \<Rightarrow> ('b, 's) js) \<Rightarrow> nat list \<Rightarrow> ((nat \<times> 'b) list, 's) js" where
  "js_each task [] = js_return []"
| "js_each task (i # is) =
     js_bind (task i) (\<lambda>y. js_bind (js_each task is) (\<lambda>ys. js_return ((i, y) # ys)))"

definition completion_order :: "nat list \<Rightarrow> nat \<Rightarrow> nat list" where
  "completion_order order n = (if sort order = [0..<n] then order else [0..<n])"

definition Promise_all :: "nat list \<Rightarrow> ('a \<Rightarrow> ('b, 's) js) \<Rightarrow> 'a list \<Rightarrow> ('b list, 's) js" where
  "Promise_all order f xs =
     js_bind (js_each (\<lambda>i. f (xs ! i)) (completion_order order (length xs))) (\<lambda>settled.
     js_return
       (concat (map (\<lambda>i. case map_of settled i of None \<Rightarrow> [] | Some y \<Rightarrow> [y])
                  [0..<length xs])))"

text \<open>A primitive of the store acts on the store's state only.\<close>

definition on_store :: "('s \<Rightarrow> (error + 'a) \<times> 's) \<Rightarrow> ('a, 's) js" where
  "on_store f w = (case f (store w) of (r, s') \<Rightarrow> (r, w\<lparr>store := s'\<rparr>))"

section \<open>The Fastly KV Store\<close>

text \<open>
  The object handed to \<open>SplitStorageWrapper\<close>: \<open>get\<close> resolves with an entry or with
  \<open>null\<close>, and the entry's \<open>text()\<close> resolves with the stored string; \<open>list\<close> resolves
  with \<open>{ list, cursor }\<close> (the shape \<open>getKeysByPrefix\<close> reads) or with something
  that iterates over entries with a \<open>key\<close> (the shape \<open>handleStatus\<close> reads). Every
  primitive may throw instead.
\<close>

datatype entry = Entry (entry_text: "error + string")

record list_options =
  opt_prefix :: "string option"
  opt_limit :: "nat option"

datatype list_result =
    ListPage (page_list: "string list option") (page_cursor: "string option")
  | EntryIterable (iter_keys: "string list")

record 's KVStore =
  KVStore_get :: "string \<Rightarrow> 's \<Rightarrow> (error + entry option) \<times> 's"
  KVStore_put :: "string \<Rightarrow> string \<Rightarrow> 's \<Rightarrow> (error + unit) \<times> 's"
  KVStore_delete :: "string \<Rightarrow> 's \<Rightarrow> (error + unit) \<times> 's"
  KVStore_list :: "list_options \<Rightarrow> 's \<Rightarrow> (error + list_result) \<times> 's"

text \<open>A method call on \<open>kvStore\<close>, which throws a \<open>TypeError\<close> when \<open>kvStore\<close> is
  \<open>null\<close> or \<open>undefined\<close>, before the arguments of the call are evaluated.\<close>

definition kv_call :: "'s KVStore option \<Rightarrow> ('s KVStore \<Rightarrow> ('a, 's) js) \<Rightarrow> ('a, 's) js" where
  "kv_call kvStore m =
     (case kvStore of
        None \<Rightarrow> js_throw (TypeError ''Cannot read properties of undefined'')
      | Some kv \<Rightarrow> m kv)"

section \<open>\<open>SplitStorageWrapper(kvStore)\<close>\<close>

definition getValue :: "builtins \<Rightarrow> 's KVStore option \<Rightarrow> string \<Rightarrow> (jsval, 's) js" where
  "getValue J kvStore key =
     js_try
       (js_bind (kv_call kvStore (\<lambda>kv. on_store (KVStore_get kv key))) (\<lambda>entry.
          case entry of
            None \<Rightarrow> js_return JNull
          | Some e \<Rightarrow>
              js_bind (js_result (entry_text e)) (\<lambda>text.
                if text \<noteq> [] then js_result (JSON_parse J text) else js_return JNull)))
       (\<lambda>error.
          js_bind (console_error (''Error getting key '' @ key @ '':'') error) (\<lambda>_.
          js_return JNull))"

definition setValue :: "builtins \<Rightarrow> 's KVStore option \<Rightarrow> string \<Rightarrow> jsval \<Rightarrow> (bool, 's) js" where
  "setValue J kvStore key v =
     js_try
       (js_bind
          (kv_call kvStore (\<lambda>kv.
             js_bind (js_result (JSON_stringify J v)) (\<lambda>text.
             on_store (KVStore_put kv key text)))) (\<lambda>_.
          js_return True))
       (\<lambda>error.
          js_bind (console_error (''Error setting key '' @ key @ '':'') error) (\<lambda>_.
          js_return False))"

definition get :: "builtins \<Rightarrow> 's KVStore option \<Rightarrow> string \<Rightarrow> (jsval, 's) js" where
  "get J kvStore key = getValue J kvStore key"

definition set_op :: "builtins \<Rightarrow> 's KVStore option \<Rightarrow> string \<Rightarrow> jsval \<Rightarrow> (bool, 's) js" where
  "set_op J kvStore key v = setValue J kvStore key v"


definition del :: "'s KVStore option \<Rightarrow> string \<Rightarrow> (bool, 's) js" where
  "del kvStore key =
     js_try
       (js_bind (kv_call kvStore (\<lambda>kv. on_store (KVStore_delete kv key))) (\<lambda>_.
          js_return True))
       (\<lambda>error.
          js_bind (console_error (''Error deleting key '' @ key @ '':'') error) (\<lambda>_.
          js_return False))"

text \<open>\<open>result.list || []\<close>: an iterable of entries has no \<open>list\<close> property.\<close>

fun result_list :: "list_result \<Rightarrow> string list" where
  "result_list (ListPage (Some ks) c) = ks"
| "result_list (ListPage None c) = []"
| "result_list (EntryIterable es) = []"


definition getMany ::
    "builtins \<Rightarrow> 's KVStore option \<Rightarrow> nat list \<Rightarrow> string list \<Rightarrow> (jsval list, 's) js" where
  "getMany J kvStore order keys =
     js_try
       (js_bind (Promise_all order (\<lambda>key. getValue J kvStore key) keys) (\<lambda>results.
          js_return results))
       (\<lambda>error.
          js_bind (console_error ''Error getting multiple keys:'' error) (\<lambda>_.
          js_return (map (\<lambda>_. JNull) keys)))"

text \<open>The default of the second parameter of \<open>incr\<close> and \<open>decr\<close> is 1.\<close>

definition amount :: "rat option \<Rightarrow> rat" where
  "amount a = (case a of None \<Rightarrow> 1 | Some n \<Rightarrow> n)"

definition incr :: "builtins \<Rightarrow> 's KVStore option \<Rightarrow> string \<Rightarrow> rat option \<Rightarrow> (jsval, 's) js" where
  "incr J kvStore key increment =
     js_try
       (js_bind (getValue J kvStore key) (\<lambda>current.
          let newValue = js_plus J (js_or current (JNum 0)) (JNum (amount increment)) in
          js_bind (setValue J kvStore key newValue) (\<lambda>_.
          js_return newValue)))
       (\<lambda>error.
          js_bind (console_error (''Error incrementing key '' @ key @ '':'') error) (\<lambda>_.
          js_return (JNum (amount increment))))"

definition decr :: "builtins \<Rightarrow> 's KVStore option \<Rightarrow> string \<Rightarrow> rat option \<Rightarrow> (jsval, 's) js" where
  "decr J kvStore key decrement =
     js_try
       (js_bind (getValue J kvStore key) (\<lambda>current.
          let newValue = js_minus J (js_or current (JNum 0)) (JNum (amount decrement)) in
          js_bind (setValue J kvStore key newValue) (\<lambda>_.
          js_return newValue)))
       (\<lambda>error.
          js_bind (console_error (''Error decrementing key '' @ key @ '':'') error) (\<lambda>_.
          js_return (JNum (- amount decrement))))"

definition itemContains :: "builtins \<Rightarrow> 's KVStore option \<Rightarrow> string \<Rightarrow> jsval \<Rightarrow> (bool, 's) js" where
  "itemContains J kvStore key item =
     js_try
       (js_bind (getValue J kvStore key) (\<lambda>set.
          js_return (if truthy set \<and> Array_isArray set then Array_includes (elements set) item
                     else False)))
       (\<lambda>error.
          js_bind (console_error (''Error checking item in set '' @ key @ '':'') error) (\<lambda>_.
          js_return False))"


definition removeItems :: "builtins \<Rightarrow> 's KVStore option \<Rightarrow> string \<Rightarrow> jsval list \<Rightarrow> (unit, 's) js" where
  "removeItems J kvStore key items =
     js_try
       (js_bind (getValue J kvStore key) (\<lambda>set.
          if truthy set \<and> Array_isArray set then
            let updatedSet = JArr (filter (\<lambda>item. \<not> Array_includes items item) (elements set)) in
            js_bind (setValue J kvStore key updatedSet) (\<lambda>_.
            js_return ())
          else js_return ()))
       (\<lambda>error.
          js_bind (console_error (''Error removing items from set '' @ key @ '':'') error) (\<lambda>_.
          js_return ()))"

definition getItems :: "builtins \<Rightarrow> 's KVStore option \<Rightarrow> string \<Rightarrow> (jsval list, 's) js" where
  "getItems J kvStore key =
     js_try
       (js_bind (getValue J kvStore key) (\<lambda>set.
          js_return (if truthy set \<and> Array_isArray set then elements set else [])))
       (\<lambda>error.
          js_bind (console_error (''Error getting items from set '' @ key @ '':'') error) (\<lambda>_.
          js_return []))"



definition pushItems :: "'s KVStore option \<Rightarrow> string \<Rightarrow> jsval list \<Rightarrow> (unit, 's) js" where
  "pushItems kvStore key items = js_return ()"

definition popItems :: "'s KVStore option \<Rightarrow> string \<Rightarrow> nat \<Rightarrow> (jsval list, 's) js" where
  "popItems kvStore key count = js_return []"

definition getItemsCount :: "'s KVStore option \<Rightarrow> string \<Rightarrow> (int, 's) js" where
  "getItemsCount kvStore key = js_return 0"

subsection \<open>A store that keeps what it is given\<close>

text \<open>
  The key-value store as a finite table from keys to texts, none of whose primitives
  throws: \<open>delete\<close> removes the key, \<open>list\<close> returns the keys with the prefix, at most
  \<open>limit\<close> of them.
\<close>

type_synonym table = "(string \<times> string) list"

definition list_keys :: "list_options \<Rightarrow> table \<Rightarrow> string list" where
  "list_keys opts t =
     (let ks = filter (\<lambda>k. case opt_prefix opts of None \<Rightarrow> True
                                | Some p \<Rightarrow> take (length p) k = p) (map fst t)
      in case opt_limit opts of None \<Rightarrow> ks | Some n \<Rightarrow> take n ks)"

definition table_store :: "table KVStore" where
  "table_store =
     \<lparr> KVStore_get = (\<lambda>key t. (Inr (map_option (\<lambda>text. Entry (Inr text)) (map_of t key)), t)),
       KVStore_put = (\<lambda>key text t. (Inr (), AList.update key text t)),
       KVStore_delete = (\<lambda>key t. (Inr (), AList.delete key t)),
       KVStore_list = (\<lambda>opts t. (Inr (ListPage (Some (list_keys opts t)) None), t)) \<rparr>"

text \<open>The same table behind a \<open>list\<close> that resolves with an iterable of entries.\<close>

definition cursor_store :: "table KVStore" where
  "cursor_store =
     table_store\<lparr> KVStore_list := (\<lambda>opts t. (Inr (EntryIterable (list_keys opts t)), t)) \<rparr>"

subsection \<open>A store that is out of order\<close>

text \<open>A store every primitive of which throws a given error.\<close>

definition failing_store :: "error \<Rightarrow> 's KVStore" where
  "failing_store e =
     \<lparr> KVStore_get = (\<lambda>key s. (Inl e, s)),
       KVStore_put = (\<lambda>key text s. (Inl e, s)),
       KVStore_delete = (\<lambda>key s. (Inl e, s)),
       KVStore_list = (\<lambda>opts s. (Inl e, s)) \<rparr>"

section \<open>\<open>createFastlyKVWrapper(storeId, apiToken)\<close> of the synchronisation script\<close>

text \<open>
  The wrapper of \<open>sync-to-kv.js\<close> reaches the store through \<open>fetch\<close>, which resolves
  with a response or throws; \<open>response.ok\<close> holds for the statuses 200 to 299.
\<close>

datatype http_method = GET | PUT | DELETE

record request =
  req_method :: http_method
  req_url :: string
  req_headers :: "(string \<times> string) list"
  req_body :: "string option"

record response =
  resp_status :: nat
  resp_statusText :: string
  resp_text :: "error + string"

definition resp_ok :: "response \<Rightarrow> bool" where
  "resp_ok r = (200 \<le> resp_status r \<and> resp_status r \<le> 299)"

record 's api =
  api_fetch :: "request \<Rightarrow> 's \<Rightarrow> (error + response) \<times> 's"
  api_storeId :: string
  api_apiToken :: string

definition is_digit :: "char \<Rightarrow> bool" where
  "is_digit c = (48 \<le> (of_char c :: nat) \<and> (of_char c :: nat) \<le> 57)"

definition upper_hex :: "nat \<Rightarrow> char" where
  "upper_hex d = ''0123456789ABCDEF'' ! d"

definition percent :: "nat \<Rightarrow> string" where
  "percent b = [CHR ''%'', upper_hex (b div 16), upper_hex (b mod 16)]"

definition is_unreserved :: "char \<Rightarrow> bool" where
  "is_unreserved c =
     (is_digit c \<or> (65 \<le> (of_char c :: nat) \<and> (of_char c :: nat) \<le> 90)
      \<or> (97 \<le> (of_char c :: nat) \<and> (of_char c :: nat) \<le> 122)
      \<or> c \<in> set ''-_.!~*'' \<or> c = CHR 0x27 \<or> c = CHR ''('' \<or> c = CHR '')'')"

text \<open>\<open>encodeURIComponent\<close>: the UTF-8 bytes of every character that is not unreserved,
  percent-encoded.\<close>

definition encodeURIComponent :: "string \<Rightarrow> string" where
  "encodeURIComponent s =
     concat (map (\<lambda>c. if is_unreserved c then [c]
                        else if (of_char c :: nat) < 128 then percent (of_char c)
                        else percent (192 + of_char c div 64) @ percent (128 + of_char c mod 64)) s)"

definition baseUrl :: "'s api \<Rightarrow> string" where
  "baseUrl a = ''https://api.fastly.com/resources/stores/kv/'' @ api_storeId a"

definition key_url :: "'s api \<Rightarrow> string \<Rightarrow> string" where
  "key_url a key = baseUrl a @ ''/keys/'' @ encodeURIComponent key"

definition getValue_api :: "builtins \<Rightarrow> 's api \<Rightarrow> string \<Rightarrow> (jsval, 's) js" where
  "getValue_api J a key =
     js_try
       (js_bind
          (on_store (api_fetch a
             \<lparr> req_method = GET, req_url = key_url a key,
               req_headers = [(''Fastly-Key'', api_apiToken a)], req_body = None \<rparr>)) (\<lambda>response.
          if resp_status response = 404 then js_return JNull
          else if \<not> resp_ok response
            then js_throw (Error (''Fastly KV get failed: '' @ resp_statusText response))
          else
            js_bind (js_result (resp_text response)) (\<lambda>text.
              if text \<noteq> [] then js_result (JSON_parse J text) else js_return JNull)))
       (\<lambda>error.
          js_bind (console_error_message (''Error getting key '' @ key @ '':'') (message error)) (\<lambda>_.
          js_return JNull))"

definition setValue_api :: "builtins \<Rightarrow> 's api \<Rightarrow> string \<Rightarrow> jsval \<Rightarrow> (bool, 's) js" where
  "setValue_api J a key v =
     js_try
       (js_bind (js_result (JSON_stringify J v)) (\<lambda>body.
        js_bind
          (on_store (api_fetch a
             \<lparr> req_method = PUT, req_url = key_url a key,
               req_headers = [(''Fastly-Key'', api_apiToken a),
                              (''Content-Type'', ''application/json'')],
               req_body = Some body \<rparr>)) (\<lambda>response.
          if \<not> resp_ok response
            then js_throw (Error (''Fastly KV set failed: '' @ resp_statusText response))
          else js_return True)))
       (\<lambda>error.
          js_bind (console_error_message (''Error setting key '' @ key @ '':'') (message error)) (\<lambda>_.
          js_return False))"

definition get_api :: "builtins \<Rightarrow> 's api \<Rightarrow> string \<Rightarrow> (jsval, 's) js" where
  "get_api J a key = getValue_api J a key"

definition set_api :: "builtins \<Rightarrow> 's api \<Rightarrow> string \<Rightarrow> jsval \<Rightarrow> (bool, 's) js" where
  "set_api J a key v = setValue_api J a key v"

definition getMany_api ::
    "builtins \<Rightarrow> 's api \<Rightarrow> nat list \<Rightarrow> string list \<Rightarrow> (jsval list, 's) js" where
  "getMany_api J a order keys =
     js_bind (Promise_all order (\<lambda>key. getValue_api J a key) keys) (\<lambda>results.
     js_return results)"

definition incr_api :: "builtins \<Rightarrow> 's api \<Rightarrow> string \<Rightarrow> rat option \<Rightarrow> (jsval, 's) js" where
  "incr_api J a key increment =
     js_bind (getValue_api J a key) (\<lambda>current.
     let newValue = js_plus J (js_or current (JNum 0)) (JNum (amount increment)) in
     js_bind (setValue_api J a key newValue) (\<lambda>_.
     js_return newValue))"

definition decr_api :: "builtins \<Rightarrow> 's api \<Rightarrow> string \<Rightarrow> rat option \<Rightarrow> (jsval, 's) js" where
  "decr_api J a key decrement =
     js_bind (getValue_api J a key) (\<lambda>current.
     let newValue = js_minus J (js_or current (JNum 0)) (JNum (amount decrement)) in
     js_bind (setValue_api J a key newValue) (\<lambda>_.
     js_return newValue))"

definition pushItems_api :: "'s api \<Rightarrow> string \<Rightarrow> jsval list \<Rightarrow> (unit, 's) js" where
  "pushItems_api a key items = js_return ()"

definition popItems_api :: "'s api \<Rightarrow> string \<Rightarrow> nat \<Rightarrow> (jsval list, 's) js" where
  "popItems_api a key count = js_return []"

definition getItemsCount_api :: "'s api \<Rightarrow> string \<Rightarrow> (int, 's) js" where
  "getItemsCount_api a key = js_return 0"

text \<open>
  A server that keeps under each URL the body last put there: \<open>GET\<close> answers 404 for a
  URL it does not hold, \<open>PUT\<close> and \<open>DELETE\<close> answer 200.
\<close>

definition rest_fetch :: "request \<Rightarrow> table \<Rightarrow> (error + response) \<times> table" where
  "rest_fetch rq t =
     (case req_method rq of
        GET \<Rightarrow>
          (case map_of t (req_url rq) of
             None \<Rightarrow> (Inr \<lparr>resp_status = 404, resp_statusText = ''Not Found'',
                           resp_text = Inr []\<rparr>, t)
           | Some body \<Rightarrow> (Inr \<lparr>resp_status = 200, resp_statusText = ''OK'',
                                resp_text = Inr body\<rparr>, t))
      | PUT \<Rightarrow>
          (Inr \<lparr>resp_status = 200, resp_statusText = ''OK'', resp_text = Inr []\<rparr>,
           AList.update (req_url rq) (case req_body rq of None \<Rightarrow> [] | Some b \<Rightarrow> b) t)
      | DELETE \<Rightarrow>
          (Inr \<lparr>resp_status = 200, resp_statusText = ''OK'', resp_text = Inr []\<rparr>,
           AList.delete (req_url rq) t))"

definition rest_api :: "string \<Rightarrow> string \<Rightarrow> table api" where
  "rest_api storeId apiToken =
     \<lparr> api_fetch = rest_fetch, api_storeId = storeId, api_apiToken = apiToken \<rparr>"

section \<open>Configuration\<close>

record config =
  SPLIT_SDK_KEY :: string
  FEATURE_FLAG_NAME :: string
  KV_STORE_NAME :: string
  DEFAULT_USER_KEY :: string

definition DEFAULTS :: config where
  "DEFAULTS =
     \<lparr> SPLIT_SDK_KEY = ''<YOUR-SERVER-SIDE-SDK-KEY>'',
       FEATURE_FLAG_NAME = ''my-feature-flag'',
       KV_STORE_NAME = ''split-storage'',
       DEFAULT_USER_KEY = ''user-123'' \<rparr>"

text \<open>
  What the edge platform and the flag SDK provide to a request: the environment, the
  constructors of the three stores (each may throw), and the evaluation of one flag by an
  SDK client built over \<open>SplitStorageWrapper(kvStore)\<close>, from the creation of the factory
  to the destruction of the client.
\<close>

datatype secret = Secret (plaintext: "error + string")

record 's platform =
  env :: "string \<Rightarrow> string"
  SecretStore_new :: "string \<Rightarrow> error + (string \<Rightarrow> error + secret option)"
  ConfigStore_new :: "string \<Rightarrow> error + (string \<Rightarrow> string option)"
  KVStore_new :: "string \<Rightarrow> error + 's KVStore"
  Split_getTreatment :: "string \<Rightarrow> string \<Rightarrow> 's KVStore \<Rightarrow> string \<Rightarrow> (string, 's) js"

text \<open>\<open>x || d\<close> for a string or \<open>null\<close> \<open>x\<close>.\<close>

definition or_default :: "string option \<Rightarrow> string \<Rightarrow> string" where
  "or_default x d = (case x of None \<Rightarrow> d | Some v \<Rightarrow> if v = [] then d else v)"

definition getConfig :: "'s platform \<Rightarrow> (config, 's) js" where
  "getConfig p =
     js_bind
       (js_try
          (js_bind (js_result (SecretStore_new p ''SPLIT_SDK_KEY'')) (\<lambda>secretStore.
           js_bind (js_result (secretStore ''SPLIT_SDK_KEY'')) (\<lambda>sdkKeySecret.
             case sdkKeySecret of
               None \<Rightarrow> js_return (SPLIT_SDK_KEY DEFAULTS)
             | Some sec \<Rightarrow> js_result (plaintext sec))))
          (\<lambda>error.
             js_bind (console_log ''Secret Store not available for SDK key, using default'') (\<lambda>_.
             js_return (SPLIT_SDK_KEY DEFAULTS)))) (\<lambda>sdkKey.
     js_bind
       (js_try
          (js_bind (js_result (ConfigStore_new p ''split-config'')) (\<lambda>cs. js_return (Some cs)))
          (\<lambda>error.
             js_bind (console_log ''Config Store not available, using defaults'') (\<lambda>_.
             js_return None))) (\<lambda>configStore.
     let lookup = (\<lambda>k. case configStore of None \<Rightarrow> None | Some cs \<Rightarrow> cs k) in
     js_return
       \<lparr> SPLIT_SDK_KEY = sdkKey,
         FEATURE_FLAG_NAME =
           or_default (lookup ''FEATURE_FLAG_NAME'') (FEATURE_FLAG_NAME DEFAULTS),
         KV_STORE_NAME = or_default (lookup ''KV_STORE_NAME'') (KV_STORE_NAME DEFAULTS),
         DEFAULT_USER_KEY =
           or_default (lookup ''DEFAULT_USER_KEY'') (DEFAULT_USER_KEY DEFAULTS) \<rparr>))"

section \<open>The request handler\<close>

text \<open>
  A request is its URL's path and query parameters. The body of a response is the plain
  text or the data its HTML page is rendered from.
\<close>

record http_request =
  pathname :: string
  searchParams :: "(string \<times> string) list"

datatype body =
    PlainText string
  | HomePage config
  | TreatmentPage string string string
  | StatusPage "string list" config

record Response =
  status :: nat
  content_type :: string
  body :: body

definition handleHomePage :: "http_request \<Rightarrow> config \<Rightarrow> (Response, 's) js" where
  "handleHomePage url cfg =
     js_return \<lparr>status = 200, content_type = ''text/html; charset=utf-8'', body = HomePage cfg\<rparr>"

definition startsWith :: "string \<Rightarrow> string \<Rightarrow> bool" where
  "startsWith s p = (take (length p) s = p)"

definition handleGetTreatment ::
    "'s platform \<Rightarrow> http_request \<Rightarrow> 's KVStore \<Rightarrow> config \<Rightarrow> (Response, 's) js" where
  "handleGetTreatment p url kvStore cfg =
     (let key = or_default (map_of (searchParams url) ''key'') (DEFAULT_USER_KEY cfg);
          featureFlagName =
            or_default (map_of (searchParams url) ''feature-flag'') (FEATURE_FLAG_NAME cfg)
      in
      if key = [] then
        js_return \<lparr>status = 400, content_type = ''text/plain'',
                    body = PlainText ''Error: No user key provided''\<rparr>
      else if startsWith (SPLIT_SDK_KEY cfg) ''<YOUR'' then
        js_return \<lparr>status = 500, content_type = ''text/plain'',
                    body = PlainText (''Error: Harness FME SDK key not configured.''
                      @ [CHR 0x0A, CHR 0x0A] @ ''For local development: Edit src/config.js DEFAULTS''
                      @ [CHR 0x0A] @ ''For production: Configure the '' @ [CHR 0x27]
                      @ ''split-config'' @ [CHR 0x27] @ '' Config Store'')\<rparr>
      else
        js_try
          (js_bind (Split_getTreatment p (SPLIT_SDK_KEY cfg) key kvStore featureFlagName)
             (\<lambda>treatment.
             js_return \<lparr>status = 200, content_type = ''text/html; charset=utf-8'',
                         body = TreatmentPage key featureFlagName treatment\<rparr>))
          (\<lambda>error.
             js_bind (console_error ''Error getting treatment:'' error) (\<lambda>_.
             js_return \<lparr>status = 500, content_type = ''text/plain'',
                         body = PlainText (''Error evaluating feature flag: '' @ message error
                           @ [CHR 0x0A, CHR 0x0A]
                           @ ''Make sure you have synchronized data first by visiting /sync'')\<rparr>)))"

text \<open>\<open>for await (const entry of cursor) keys.push(entry.key)\<close>: a \<open>{ list, cursor }\<close>
  object is not iterable.\<close>

fun entry_keys :: "list_result \<Rightarrow> error + string list" where
  "entry_keys (EntryIterable ks) = Inr ks"
| "entry_keys (ListPage l c) = Inl (TypeError ''cursor is not async iterable'')"

definition handleStatus :: "'s KVStore \<Rightarrow> config \<Rightarrow> (Response, 's) js" where
  "handleStatus kvStore cfg =
     js_try
       (js_bind
          (on_store (KVStore_list kvStore \<lparr>opt_prefix = None, opt_limit = Some 10\<rparr>)) (\<lambda>cursor.
        js_bind (js_result (entry_keys cursor)) (\<lambda>keys.
        js_return \<lparr>status = 200, content_type = ''text/html; charset=utf-8'',
                    body = StatusPage keys cfg\<rparr>)))
       (\<lambda>error.
          js_return \<lparr>status = 500, content_type = ''text/plain'',
                      body = PlainText (''Error checking status: '' @ message error)\<rparr>)"

definition handleRequest :: "'s platform \<Rightarrow> http_request \<Rightarrow> (Response, 's) js" where
  "handleRequest p url =
     js_bind
       (console_log (''FASTLY_SERVICE_VERSION: ''
          @ or_default (Some (env p ''FASTLY_SERVICE_VERSION'')) ''local'')) (\<lambda>_.
     js_bind (getConfig p) (\<lambda>cfg.
       case KVStore_new p (KV_STORE_NAME cfg) of
         Inl error \<Rightarrow>
           js_return \<lparr>status = 500, content_type = ''text/plain'',
                       body = PlainText (''Error: KV Store '' @ [CHR 0x22] @ KV_STORE_NAME cfg
                         @ [CHR 0x22] @ '' not found. Please create it in the Fastly dashboard.''
                         @ [CHR 0x0A, CHR 0x0A] @ ''Error: '' @ message error)\<rparr>
       | Inr kvStore \<Rightarrow>
           if pathname url = ''/'' then handleHomePage url cfg
           else if pathname url = ''/get-treatment'' then handleGetTreatment p url kvStore cfg
           else if pathname url = ''/status'' then handleStatus kvStore cfg
           else js_return \<lparr>status = 404, content_type = ''text/plain'',
                            body = PlainText ''Not found''\<rparr>))"

text \<open>The keys a response lists.\<close>

fun listed_keys :: "Response \<Rightarrow> string list" where
  "listed_keys r = (case body r of StatusPage ks c \<Rightarrow> ks | _ \<Rightarrow> [])"

text \<open>A store honours \<open>limit\<close> when no listing holds more keys than asked for.\<close>

fun result_keys :: "list_result \<Rightarrow> string list" where
  "result_keys (EntryIterable ks) = ks"
| "result_keys (ListPage l c) = result_list (ListPage l c)"

definition honours_limit :: "'s KVStore \<Rightarrow> bool" where
  "honours_limit kv =
     (\<forall>opts s n. opt_limit opts = Some n \<longrightarrow>
        (case fst (KVStore_list kv opts s) of
           Inl e \<Rightarrow> True
         | Inr r \<Rightarrow> length (result_keys r) \<le> n))"

section \<open>The synchronisation script\<close>

text \<open>
  The script reads three variables of the environment, each a string or undefined, and
  ends with \<open>process.exit\<close>. The synchroniser is the SDK's: constructing it or calling
  \<open>execute\<close> may throw, and otherwise \<open>execute\<close> calls back once, with an error or
  without one.
\<close>

record process_env =
  FASTLY_API_TOKEN :: "string option"
  SPLIT_SDK_KEY_env :: "string option"
  KV_STORE_ID :: "string option"

text \<open>\<open>!x\<close> for a string or \<open>undefined\<close> \<open>x\<close>.\<close>

definition falsy :: "string option \<Rightarrow> bool" where
  "falsy x = (case x of None \<Rightarrow> True | Some v \<Rightarrow> v = [])"

type_synonym 's synchronizer = "string \<Rightarrow> 's api \<Rightarrow> (error option, 's) js"

type_synonym 's fetch = "request \<Rightarrow> 's \<Rightarrow> (error + response) \<times> 's"

definition announce :: "string \<Rightarrow> string \<Rightarrow> (unit, 's) js" where
  "announce storeId sdkKey =
     js_bind (console_log ''Starting Harness FME -> Fastly KV Store synchronization...'') (\<lambda>_.
     js_bind (console_log (''   KV Store ID: '' @ storeId)) (\<lambda>_.
     js_bind (console_log (''   Harness FME SDK Key: '' @ take 10 sdkKey @ ''...'')) (\<lambda>_.
     console_log [])))"

definition syncHarnessFMEToFastly ::
    "'s synchronizer \<Rightarrow> 's fetch \<Rightarrow> string \<Rightarrow> string \<Rightarrow> string \<Rightarrow> (unit, 's) js" where
  "syncHarnessFMEToFastly execute fetch apiToken sdkKey storeId =
     js_bind (announce storeId sdkKey) (\<lambda>_.
     let kvWrapper = \<lparr> api_fetch = fetch, api_storeId = storeId, api_apiToken = apiToken \<rparr> in
     js_bind (execute sdkKey kvWrapper) (\<lambda>error.
       case error of
         Some err \<Rightarrow>
           js_bind (console_error_message ''Synchronization failed:'' (message err)) (\<lambda>_.
           js_throw err)
       | None \<Rightarrow>
           js_bind (console_log ''Synchronization completed successfully!'') (\<lambda>_.
           js_bind (console_log ''   Feature flag data has been written to Fastly KV Store'') (\<lambda>_.
           js_bind (console_log
              ''   Your Fastly Compute service can now evaluate feature flags'') (\<lambda>_.
           js_return ())))))"

text \<open>The whole script: the status it exits with and the world it leaves.\<close>

definition missing_variables :: "log_line list" where
  "missing_variables =
     [ConsoleErrorLine ''Missing required environment variables:'',
      ConsoleErrorLine ''   FASTLY_API_TOKEN - Your Fastly API token'',
      ConsoleErrorLine ''   SPLIT_SDK_KEY - Your Harness FME SDK key'',
      ConsoleErrorLine ''   KV_STORE_ID - Your Fastly KV Store ID'']"

definition sync_to_kv ::
    "'s synchronizer \<Rightarrow> 's fetch \<Rightarrow> process_env \<Rightarrow> 's world \<Rightarrow> nat \<times> 's world" where
  "sync_to_kv execute fetch e w =
     (case (FASTLY_API_TOKEN e, SPLIT_SDK_KEY_env e, KV_STORE_ID e) of
        (Some apiToken, Some sdkKey, Some storeId) \<Rightarrow>
          if apiToken = [] \<or> sdkKey = [] \<or> storeId = [] then
            (1, w\<lparr>console := console w @ missing_variables\<rparr>)
          else
            (case syncHarnessFMEToFastly execute fetch apiToken sdkKey storeId w of
               (Inr u, w') \<Rightarrow> (0, w')
             | (Inl error, w') \<Rightarrow>
                 (1, w'\<lparr>console := console w' @ [ConsoleError ''Fatal error:'' error]\<rparr>))
      | _ \<Rightarrow> (1, w\<lparr>console := console w @ missing_variables\<rparr>))"

section \<open>What the store holds\<close>

text \<open>
  The value a stored text denotes: \<open>null\<close> for the empty text and for a text that
  \<open>JSON.parse\<close> refuses. The value stored under a key is \<open>null\<close> when the key is
  absent, and so is the value of an answer that is an error.
\<close>

definition text_value :: "builtins \<Rightarrow> string \<Rightarrow> jsval" where
  "text_value J text =
     (if text = [] then JNull
      else case JSON_parse J text of Inl e \<Rightarrow> JNull | Inr v \<Rightarrow> v)"

definition stored_value :: "builtins \<Rightarrow> string option \<Rightarrow> jsval" where
  "stored_value J t = (case t of None \<Rightarrow> JNull | Some text \<Rightarrow> text_value J text)"

fun entry_value :: "builtins \<Rightarrow> error + entry option \<Rightarrow> jsval" where
  "entry_value J (Inl e) = JNull"
| "entry_value J (Inr None) = JNull"
| "entry_value J (Inr (Some (Entry (Inl e)))) = JNull"
| "entry_value J (Inr (Some (Entry (Inr text)))) = text_value J text"

definition response_value :: "builtins \<Rightarrow> error + response \<Rightarrow> jsval" where
  "response_value J r =
     (case r of
        Inl e \<Rightarrow> JNull
      | Inr response \<Rightarrow>
          if resp_status response = 404 \<or> \<not> resp_ok response then JNull
          else case resp_text response of Inl e \<Rightarrow> JNull | Inr text \<Rightarrow> text_value J text)"

definition get_request :: "'s api \<Rightarrow> string \<Rightarrow> request" where
  "get_request a key =
     \<lparr> req_method = GET, req_url = key_url a key,
       req_headers = [(''Fastly-Key'', api_apiToken a)], req_body = None \<rparr>"

text \<open>The world after an error of the store was caught and logged.\<close>

definition logged :: "string \<Rightarrow> error \<Rightarrow> 's \<Rightarrow> 's world \<Rightarrow> 's world" where
  "logged msg e s' w = \<lparr>store = s', console = console w @ [ConsoleError msg e]\<rparr>"

section \<open>A JSON codec for concrete scenarios\<close>

text \<open>
  One instance of the built-in conversions, on the values whose numbers are integers and
  whose characters need no \<open>\u\<close> escape above \<open>00ff\<close>. It serves the concrete
  scenarios; the properties of the wrappers are stated for every instance.
\<close>

subsection \<open>Integers\<close>

definition digit_char :: "nat \<Rightarrow> char" where
  "digit_char d = ''0123456789abcdef'' ! d"

definition digit_val :: "char \<Rightarrow> nat" where
  "digit_val c = of_char c - 48"

fun digits :: "nat \<Rightarrow> string" where
  "digits n = (if n < 10 then [digit_char n] else digits (n div 10) @ [digit_char (n mod 10)])"

declare digits.simps [simp del]

definition digits_val :: "string \<Rightarrow> nat" where
  "digits_val ds = foldl (\<lambda>acc c. acc * 10 + digit_val c) 0 ds"

definition Integer_toString :: "int \<Rightarrow> string" where
  "Integer_toString n = (if n < 0 then CHR ''-'' # digits (nat (- n)) else digits (nat n))"

text \<open>An integer is written in decimal; another rational is written as a fraction, which
  is not what JavaScript writes.\<close>

definition plain_Number_toString :: "rat \<Rightarrow> string" where
  "plain_Number_toString r =
     (case quotient_of r of
        (p, q) \<Rightarrow> if q = 1 then Integer_toString p
                  else Integer_toString p @ CHR ''/'' # Integer_toString q)"

subsection \<open>Writing\<close>

text \<open>
  The serialisation without indentation: control characters, the quotation mark and the
  backslash are escaped inside strings, \<open>NaN\<close> is written \<open>null\<close>, and the
  properties of an object are written in enumeration order. A value that holds a number
  that is not an integer is refused.
\<close>

definition QuoteJSONChar :: "char \<Rightarrow> string" where
  "QuoteJSONChar c =
     (if c = CHR 0x22 then [CHR 0x5C, CHR 0x22]
      else if c = CHR 0x5C then [CHR 0x5C, CHR 0x5C]
      else if c = CHR 0x08 then [CHR 0x5C, CHR ''b'']
      else if c = CHR 0x0C then [CHR 0x5C, CHR ''f'']
      else if c = CHR 0x0A then [CHR 0x5C, CHR ''n'']
      else if c = CHR 0x0D then [CHR 0x5C, CHR ''r'']
      else if c = CHR 0x09 then [CHR 0x5C, CHR ''t'']
      else if (of_char c :: nat) < 32
        then [CHR 0x5C, CHR ''u'', CHR ''0'', CHR ''0'',
              digit_char (of_char c div 16), digit_char (of_char c mod 16)]
      else [c])"

definition QuoteJSONString :: "string \<Rightarrow> string" where
  "QuoteJSONString s = CHR 0x22 # concat (map QuoteJSONChar s) @ [CHR 0x22]"

fun json_text :: "jsval \<Rightarrow> string" where
  "json_text JNull = ''null''"
| "json_text (JBool b) = (if b then ''true'' else ''false'')"
| "json_text (JNum n) = Integer_toString (fst (quotient_of n))"
| "json_text JNaN = ''null''"
| "json_text (JStr s) = QuoteJSONString s"
| "json_text (JArr xs) = CHR ''['' # join_comma (map json_text xs) @ '']''"
| "json_text (JObj ms) =
     CHR ''{'' # join_comma (map (\<lambda>m. QuoteJSONString (fst m) @ CHR '':'' # json_text (snd m)) ms)
       @ ''}''"

fun integral :: "jsval \<Rightarrow> bool" where
  "integral (JNum n) = (snd (quotient_of n) = 1)"
| "integral (JArr xs) = (\<forall>x \<in> set xs. integral x)"
| "integral (JObj ms) = (\<forall>m \<in> set ms. integral (snd m))"
| "integral v = True"

definition plain_stringify :: "jsval \<Rightarrow> error + string" where
  "plain_stringify v =
     (if integral v then Inr (json_text v)
      else Inl (TypeError ''a number that is not an integer''))"

subsection \<open>Reading\<close>

text \<open>
  A recursive-descent parser of the JSON grammar, which refuses a number with a fraction
  or an exponent and a \<open>\u\<close> escape above \<open>00ff\<close>.
\<close>

definition is_ws :: "char \<Rightarrow> bool" where
  "is_ws c = (c = CHR '' '' \<or> c = CHR 0x09 \<or> c = CHR 0x0A \<or> c = CHR 0x0D)"

definition skip_ws :: "string \<Rightarrow> string" where
  "skip_ws cs = dropWhile is_ws cs"

definition is_hex :: "char \<Rightarrow> bool" where
  "is_hex c = (is_digit c \<or> (97 \<le> (of_char c :: nat) \<and> (of_char c :: nat) \<le> 102)
                 \<or> (65 \<le> (of_char c :: nat) \<and> (of_char c :: nat) \<le> 70))"

definition hex_val :: "char \<Rightarrow> nat" where
  "hex_val c = (if is_digit c then of_char c - 48
                else if 97 \<le> (of_char c :: nat) then of_char c - 87 else of_char c - 55)"

definition unescape :: "char \<Rightarrow> char option" where
  "unescape c =
     (if c = CHR 0x22 then Some (CHR 0x22)
      else if c = CHR 0x5C then Some (CHR 0x5C)
      else if c = CHR ''/'' then Some (CHR ''/'')
      else if c = CHR ''b'' then Some (CHR 0x08)
      else if c = CHR ''f'' then Some (CHR 0x0C)
      else if c = CHR ''n'' then Some (CHR 0x0A)
      else if c = CHR ''r'' then Some (CHR 0x0D)
      else if c = CHR ''t'' then Some (CHR 0x09)
      else None)"

definition unicode_escape :: "char \<Rightarrow> char \<Rightarrow> char \<Rightarrow> char \<Rightarrow> char option" where
  "unicode_escape a b c d =
     (if is_hex a \<and> is_hex b \<and> is_hex c \<and> is_hex d \<and> hex_val a = 0 \<and> hex_val b = 0
      then Some (char_of (hex_val c * 16 + hex_val d)) else None)"

text \<open>The characters of a string after its opening quotation mark, up to the closing one.\<close>

fun parse_chars :: "string \<Rightarrow> (string \<times> string) option" where
  "parse_chars [] = None"
| "parse_chars (c # cs) =
     (if c = CHR 0x22 then Some ([], cs)
      else if c = CHR 0x5C then
        (case cs of
           [] \<Rightarrow> None
         | e # cs' \<Rightarrow>
             if e = CHR ''u'' then
               (case cs' of
                  a # b # x # y # cs'' \<Rightarrow>
                    (case unicode_escape a b x y of
                       None \<Rightarrow> None
                     | Some u \<Rightarrow> map_option (\<lambda>(s, r). (u # s, r)) (parse_chars cs''))
                | _ \<Rightarrow> None)
             else
               (case unescape e of
                  None \<Rightarrow> None
                | Some u \<Rightarrow> map_option (\<lambda>(s, r). (u # s, r)) (parse_chars cs')))
      else if (of_char c :: nat) < 32 then None
      else map_option (\<lambda>(s, r). (c # s, r)) (parse_chars cs))"

definition parse_nat :: "string \<Rightarrow> (nat \<times> string) option" where
  "parse_nat cs =
     (let ds = takeWhile is_digit cs; r = dropWhile is_digit cs in
      if ds = [] \<or> (hd ds = CHR ''0'' \<and> length ds > 1) then None
      else if r \<noteq> [] \<and> (hd r = CHR ''.'' \<or> hd r = CHR ''e'' \<or> hd r = CHR ''E'') then None
      else Some (digits_val ds, r))"

definition parse_number :: "string \<Rightarrow> (jsval \<times> string) option" where
  "parse_number cs =
     (case cs of
        [] \<Rightarrow> None
      | c # cs' \<Rightarrow>
          if c = CHR ''-'' then map_option (\<lambda>(n, r). (JNum (of_int (- int n)), r)) (parse_nat cs')
          else map_option (\<lambda>(n, r). (JNum (of_int (int n)), r)) (parse_nat cs))"

definition parse_literal :: "string \<Rightarrow> jsval \<Rightarrow> string \<Rightarrow> (jsval \<times> string) option" where
  "parse_literal lit v cs =
     (if take (length lit) cs = lit then Some (v, drop (length lit) cs) else None)"

text \<open>
  The object a member list denotes: a repeated key keeps its first position and takes its
  last value, and the keys that are array indices are enumerated first, in ascending order.
\<close>

definition is_array_index :: "string \<Rightarrow> bool" where
  "is_array_index k =
     (k \<noteq> [] \<and> list_all is_digit k \<and> (k = ''0'' \<or> hd k \<noteq> CHR ''0'')
      \<and> int (digits_val k) < 4294967295)"

definition obj_put :: "(string \<times> jsval) list \<Rightarrow> string \<Rightarrow> jsval \<Rightarrow> (string \<times> jsval) list" where
  "obj_put ms k v =
     (if k \<in> set (map fst ms) then map (\<lambda>m. if fst m = k then (k, v) else m) ms
      else if is_array_index k then
        takeWhile (\<lambda>m. is_array_index (fst m) \<and> digits_val (fst m) < digits_val k) ms
          @ (k, v)
          # dropWhile (\<lambda>m. is_array_index (fst m) \<and> digits_val (fst m) < digits_val k) ms
      else ms @ [(k, v)])"

definition make_object :: "(string \<times> jsval) list \<Rightarrow> (string \<times> jsval) list" where
  "make_object ms = foldl (\<lambda>acc m. obj_put acc (fst m) (snd m)) [] ms"

text \<open>
  The three mutually recursive parsers take a budget of calls first; \<open>plain_parse\<close>
  starts them with more than the length of the text.
\<close>

fun parse_value :: "nat \<Rightarrow> string \<Rightarrow> (jsval \<times> string) option"
  and parse_elements :: "nat \<Rightarrow> string \<Rightarrow> (jsval list \<times> string) option"
  and parse_members :: "nat \<Rightarrow> string \<Rightarrow> ((string \<times> jsval) list \<times> string) option"
where
  "parse_value 0 cs = None"
| "parse_value (Suc n) cs =
     (case skip_ws cs of
        [] \<Rightarrow> None
      | c # cs' \<Rightarrow>
          if c = CHR ''['' then
            (case skip_ws cs' of
               [] \<Rightarrow> None
             | d # r \<Rightarrow>
                 if d = CHR '']'' then Some (JArr [], r)
                 else map_option (\<lambda>(xs, r'). (JArr xs, r')) (parse_elements n cs'))
          else if c = CHR ''{'' then
            (case skip_ws cs' of
               [] \<Rightarrow> None
             | d # r \<Rightarrow>
                 if d = CHR ''}'' then Some (JObj [], r)
                 else map_option (\<lambda>(ms, r'). (JObj (make_object ms), r')) (parse_members n cs'))
          else if c = CHR 0x22 then map_option (\<lambda>(s, r). (JStr s, r)) (parse_chars cs')
          else if c = CHR ''t'' then parse_literal ''true'' (JBool True) (c # cs')
          else if c = CHR ''f'' then parse_literal ''false'' (JBool False) (c # cs')
          else if c = CHR ''n'' then parse_literal ''null'' JNull (c # cs')
          else parse_number (c # cs'))"
| "parse_elements 0 cs = None"
| "parse_elements (Suc n) cs =
     (case parse_value n cs of
        None \<Rightarrow> None
      | Some (v, r) \<Rightarrow>
          (case skip_ws r of
             [] \<Rightarrow> None
           | d # r' \<Rightarrow>
               if d = CHR '','' then map_option (\<lambda>(vs, r''). (v # vs, r'')) (parse_elements n r')
               else if d = CHR '']'' then Some ([v], r')
               else None))"
| "parse_members 0 cs = None"
| "parse_members (Suc n) cs =
     (case skip_ws cs of
        [] \<Rightarrow> None
      | q # cs' \<Rightarrow>
          if q \<noteq> CHR 0x22 then None
          else
            (case parse_chars cs' of
               None \<Rightarrow> None
             | Some (k, r) \<Rightarrow>
                 (case skip_ws r of
                    [] \<Rightarrow> None
                  | col # r' \<Rightarrow>
                      if col \<noteq> CHR '':'' then None
                      else
                        (case parse_value n r' of
                           None \<Rightarrow> None
                         | Some (v, r'') \<Rightarrow>
                             (case skip_ws r'' of
                                [] \<Rightarrow> None
                              | d # r3 \<Rightarrow>
                                  if d = CHR '','' then
                                    map_option (\<lambda>(ms, r4). ((k, v) # ms, r4)) (parse_members n r3)
                                  else if d = CHR ''}'' then Some ([(k, v)], r3)
                                  else None)))))"

definition plain_parse :: "string \<Rightarrow> error + jsval" where
  "plain_parse text =
     (case parse_value (Suc (length text)) text of
        None \<Rightarrow> Inl (SyntaxError ''Unexpected token in JSON'')
      | Some (v, r) \<Rightarrow>
          if skip_ws r = [] then Inr v
          else Inl (SyntaxError ''Unexpected non-whitespace character after JSON''))"

text \<open>A string converts to a number when it is an optionally signed decimal integer
  between optional white space (the empty string is 0), and to \<open>NaN\<close> otherwise.\<close>

definition plain_StringToNumber :: "string \<Rightarrow> rat option" where
  "plain_StringToNumber s =
     (let t = rev (skip_ws (rev (skip_ws s)));
          neg = (t \<noteq> [] \<and> hd t = CHR ''-'');
          ds = (if t \<noteq> [] \<and> (hd t = CHR ''-'' \<or> hd t = CHR ''+'') then tl t else t)
      in if t = [] then Some 0
         else if ds \<noteq> [] \<and> list_all is_digit ds
           then Some (if neg then - of_nat (digits_val ds) else of_nat (digits_val ds))
         else None)"

definition plain_JSON :: builtins where
  "plain_JSON =
     \<lparr> JSON_parse = plain_parse, JSON_stringify = plain_stringify,
       Number_toString = plain_Number_toString, StringToNumber = plain_StringToNumber \<rparr>"

section \<open>Properties\<close>

subsection \<open>Operations that never throw\<close>

lemmas js_defs = js_return_def js_throw_def js_result_def js_bind_def js_try_def
  console_error_def console_error_message_def console_log_def on_store_def

lemma try_total:
  assumes "\<And>e w'. \<not> isl (fst (h e w'))"
  shows "\<not> isl (fst (js_try m h w))"
  using assms by (auto simp: js_try_def split: prod.splits sum.splits)


lemma log_then_return_total: "\<not> isl (fst (js_bind (console_error msg e) (\<lambda>_. js_return d) w))"
  by (simp add: js_defs)


lemma setValue_total: "\<not> isl (fst (setValue J kvStore key v w))"
  unfolding setValue_def by (rule try_total) (rule log_then_return_total)











lemma getValue_api_total: "\<not> isl (fst (getValue_api J a key w))"
  unfolding getValue_api_def by (rule try_total) (simp add: js_defs)

subsection \<open>What the helpers return\<close>

lemma getValue_answer:
  assumes "KVStore_get kv key (store w) = (r, s')"
  shows "getValue J (Some kv) key w =
           (case r of
              Inl e \<Rightarrow> (Inr JNull, logged (''Error getting key '' @ key @ '':'') e s' w)
            | Inr None \<Rightarrow> (Inr JNull, w\<lparr>store := s'\<rparr>)
            | Inr (Some entry) \<Rightarrow>
                (case entry_text entry of
                   Inl e \<Rightarrow> (Inr JNull, logged (''Error getting key '' @ key @ '':'') e s' w)
                 | Inr text \<Rightarrow>
                     if text = [] then (Inr JNull, w\<lparr>store := s'\<rparr>)
                     else (case JSON_parse J text of
                             Inl e \<Rightarrow> (Inr JNull, logged (''Error getting key '' @ key @ '':'') e s' w)
                           | Inr v \<Rightarrow> (Inr v, w\<lparr>store := s'\<rparr>))))"
  using assms
  by (simp add: getValue_def kv_call_def js_defs logged_def split: sum.splits option.splits)

lemma getValue_value:
  assumes "KVStore_get kv key (store w) = (r, s')"
  shows "fst (getValue J (Some kv) key w) = Inr (entry_value J r)"
proof (cases r)
  case (Inl e)
  with getValue_answer [OF assms, of J] show ?thesis by simp
next
  case (Inr x)
  show ?thesis
  proof (cases x)
    case None
    with Inr getValue_answer [OF assms, of J] show ?thesis by simp
  next
    case (Some entry)
    obtain t where "entry = Entry t" by (cases entry)
    with Inr Some getValue_answer [OF assms, of J] show ?thesis
      by (cases t) (simp_all add: text_value_def split: sum.splits)
  qed
qed



lemma setValue_stringify_throws:
  assumes "JSON_stringify J v = Inl e"
  shows "setValue J (Some kv) key v w
           = (Inr False, logged (''Error setting key '' @ key @ '':'') e (store w) w)"
  using assms by (simp add: setValue_def kv_call_def js_defs logged_def)


lemma setValue_returns: "\<exists>b. fst (setValue J kvStore key v w) = Inr b"
  using setValue_total [of J kvStore key v w] by (cases "fst (setValue J kvStore key v w)") auto




lemma incr_after_get:
  assumes "getValue J kvStore key w = (Inr cur, w1)"
  shows "incr J kvStore key a w
           = (Inr (js_plus J (js_or cur (JNum 0)) (JNum (amount a))),
              snd (setValue J kvStore key (js_plus J (js_or cur (JNum 0)) (JNum (amount a))) w1))"
  using assms setValue_returns [of J kvStore key "js_plus J (js_or cur (JNum 0)) (JNum (amount a))" w1]
  by (cases "setValue J kvStore key (js_plus J (js_or cur (JNum 0)) (JNum (amount a))) w1")
     (auto simp: incr_def js_bind_def js_return_def js_try_def Let_def)

lemma decr_after_get:
  assumes "getValue J kvStore key w = (Inr cur, w1)"
  shows "decr J kvStore key a w
           = (Inr (js_minus J (js_or cur (JNum 0)) (JNum (amount a))),
              snd (setValue J kvStore key (js_minus J (js_or cur (JNum 0)) (JNum (amount a))) w1))"
  using assms setValue_returns [of J kvStore key "js_minus J (js_or cur (JNum 0)) (JNum (amount a))" w1]
  by (cases "setValue J kvStore key (js_minus J (js_or cur (JNum 0)) (JNum (amount a))) w1")
     (auto simp: decr_def js_bind_def js_return_def js_try_def Let_def)



lemma reads_of_non_array:
  assumes "getValue J kvStore key w = (Inr v, w1)" and "\<not> Array_isArray v"
  shows "itemContains J kvStore key item w = (Inr False, w1)"
    and "getItems J kvStore key w = (Inr [], w1)"
    and "removeItems J kvStore key items w = (Inr (), w1)"
  using assms
  by (simp_all add: itemContains_def getItems_def removeItems_def js_try_def js_bind_def
      js_return_def)

subsection \<open>Reading many keys\<close>

lemma js_each_rel:
  assumes step: "\<And>i w1. i \<in> set sched \<Longrightarrow> P w1
                   \<Longrightarrow> \<exists>y w2. task i w1 = (Inr y, w2) \<and> Q i y \<and> P w2"
    and "P w"
  shows "\<exists>ps w'. js_each task sched w = (Inr ps, w') \<and> map fst ps = sched
           \<and> (\<forall>p \<in> set ps. Q (fst p) (snd p)) \<and> P w'"
  using assms
proof (induction sched arbitrary: w)
  case Nil
  then show ?case by (simp add: js_return_def)
next
  case (Cons i sched)
  from Cons.prems(1) [of i w] Cons.prems(2)
  obtain y w2 where a: "task i w = (Inr y, w2)" "Q i y" "P w2" by auto
  have "\<exists>ps w'. js_each task sched w2 = (Inr ps, w') \<and> map fst ps = sched
           \<and> (\<forall>p \<in> set ps. Q (fst p) (snd p)) \<and> P w'"
    by (rule Cons.IH [OF _ \<open>P w2\<close>]) (simp add: Cons.prems(1))
  then obtain ps w' where b: "js_each task sched w2 = (Inr ps, w')" "map fst ps = sched"
    "\<forall>p \<in> set ps. Q (fst p) (snd p)" "P w'" by blast
  from a b show ?case by (simp add: js_bind_def js_return_def)
qed

lemma set_completion_order: "set (completion_order order n) = {0..<n}"
proof (cases "sort order = [0..<n]")
  case True
  then have "set order = set [0..<n]" by (metis set_sort)
  with True show ?thesis by (simp add: completion_order_def)
next
  case False
  then show ?thesis by (simp add: completion_order_def)
qed

lemma collect_settled:
  assumes "set (map fst ps) = {0..<n}" and "\<forall>p \<in> set ps. Q (fst p) (snd p)"
  shows "\<exists>rs. concat (map (\<lambda>i. case map_of ps i of None \<Rightarrow> [] | Some y \<Rightarrow> [y]) [0..<n]) = rs
           \<and> length rs = n \<and> (\<forall>i<n. Q i (rs ! i))"
proof -
  let ?h = "\<lambda>i. the (map_of ps i)"
  have found: "map_of ps i = Some (?h i) \<and> Q i (?h i)" if "i < n" for i
  proof -
    from that assms(1) have "i \<in> fst ` set ps" by auto
    then obtain y where y: "map_of ps i = Some y"
      by (cases "map_of ps i") (auto simp: map_of_eq_None_iff)
    then have "(i, y) \<in> set ps" by (rule map_of_SomeD)
    with assms(2) have "Q i y" by fastforce
    with y show ?thesis by simp
  qed
  have "map (\<lambda>i. case map_of ps i of None \<Rightarrow> [] | Some y \<Rightarrow> [y]) [0..<n]
               = map (\<lambda>i. [?h i]) [0..<n]"
  proof (intro map_cong refl)
    fix i
    assume "i \<in> set [0..<n]"
    then have "i < n" by simp
    from found [OF this] obtain y where "map_of ps i = Some y" by blast
    then show "(case map_of ps i of None \<Rightarrow> [] | Some y \<Rightarrow> [y]) = [?h i]" by simp
  qed
  then have "concat (map (\<lambda>i. case map_of ps i of None \<Rightarrow> [] | Some y \<Rightarrow> [y]) [0..<n])
               = concat (map (\<lambda>i. [?h i]) [0..<n])"
    by (simp only:)
  then have "concat (map (\<lambda>i. case map_of ps i of None \<Rightarrow> [] | Some y \<Rightarrow> [y]) [0..<n])
               = map ?h [0..<n]"
    by (simp only: concat_map_singleton)
  with found show ?thesis by simp
qed

lemma Promise_all_rel:
  assumes step: "\<And>i w1. i < length xs \<Longrightarrow> P w1
                   \<Longrightarrow> \<exists>y w2. f (xs ! i) w1 = (Inr y, w2) \<and> Q i y \<and> P w2"
    and "P w"
  shows "\<exists>rs w'. Promise_all order f xs w = (Inr rs, w') \<and> length rs = length xs
           \<and> (\<forall>i<length xs. Q i (rs ! i)) \<and> P w'"
proof -
  let ?sched = "completion_order order (length xs)"
  have "\<exists>ps w'. js_each (\<lambda>i. f (xs ! i)) ?sched w = (Inr ps, w') \<and> map fst ps = ?sched
           \<and> (\<forall>p \<in> set ps. Q (fst p) (snd p)) \<and> P w'"
  proof (rule js_each_rel [where P = P, OF _ \<open>P w\<close>])
    fix i w1
    assume "i \<in> set ?sched" "P w1"
    then show "\<exists>y w2. f (xs ! i) w1 = (Inr y, w2) \<and> Q i y \<and> P w2"
      using step [of i w1] by (simp add: set_completion_order)
  qed
  then obtain ps w' where e: "js_each (\<lambda>i. f (xs ! i)) ?sched w = (Inr ps, w')"
    and m: "map fst ps = ?sched" and q: "\<forall>p \<in> set ps. Q (fst p) (snd p)" and "P w'"
    by blast
  from m have "set (map fst ps) = {0..<length xs}" by (simp only: set_completion_order)
  from collect_settled [OF this q] obtain rs where
    "concat (map (\<lambda>i. case map_of ps i of None \<Rightarrow> [] | Some y \<Rightarrow> [y]) [0..<length xs]) = rs"
    "length rs = length xs" "\<forall>i<length xs. Q i (rs ! i)" by blast
  with e \<open>P w'\<close> show ?thesis
    by (simp add: Promise_all_def js_bind_def js_return_def)
qed

lemma Promise_all_values:
  assumes step: "\<And>i w1. i < length xs \<Longrightarrow> P w1 \<Longrightarrow> \<exists>w2. f (xs ! i) w1 = (Inr (g (xs ! i)), w2) \<and> P w2"
    and "P w"
  shows "\<exists>w'. Promise_all order f xs w = (Inr (map g xs), w') \<and> P w'"
proof -
  from Promise_all_rel [where Q = "\<lambda>i y. y = g (xs ! i)" and P = P and f = f and xs = xs
      and w = w and order = order, OF _ \<open>P w\<close>] step
  obtain rs w' where r: "Promise_all order f xs w = (Inr rs, w')" "length rs = length xs"
    "\<forall>i<length xs. rs ! i = g (xs ! i)" "P w'"
    by blast
  from r(2,3) have "rs = map g xs" by (intro nth_equalityI) simp_all
  with r show ?thesis by simp
qed

lemma getValue_api_answer:
  assumes "api_fetch a (get_request a key) (store w) = (r, s')"
  shows "fst (getValue_api J a key w) = Inr (response_value J r)"
    and "store (snd (getValue_api J a key w)) = s'"
  using assms
  by (auto simp: getValue_api_def get_request_def response_value_def text_value_def js_defs
      split: sum.splits)

lemma getMany_of_read_only_store:
  assumes "\<And>k s. snd (KVStore_get kv k s) = s"
  shows "\<exists>w'. getMany J (Some kv) order keys w
            = (Inr (map (\<lambda>k. entry_value J (fst (KVStore_get kv k (store w)))) keys), w')
          \<and> store w' = store w"
proof -
  have step: "\<exists>w2. getValue J (Some kv) (keys ! i) w1
                  = (Inr (entry_value J (fst (KVStore_get kv (keys ! i) (store w)))), w2)
                \<and> store w2 = store w"
    if "store w1 = store w" for i w1
  proof -
    obtain r s' where g: "KVStore_get kv (keys ! i) (store w1) = (r, s')"
      by (cases "KVStore_get kv (keys ! i) (store w1)")
    with assms [of "keys ! i" "store w1"] have s: "s' = store w1" by simp
    from getValue_value [OF g, of J] g that
    have "fst (getValue J (Some kv) (keys ! i) w1)
            = Inr (entry_value J (fst (KVStore_get kv (keys ! i) (store w))))" by simp
    moreover from getValue_answer [OF g, of J] s that
    have "store (snd (getValue J (Some kv) (keys ! i) w1)) = store w"
      by (simp add: logged_def split: sum.splits option.splits if_splits)
    ultimately show ?thesis by (cases "getValue J (Some kv) (keys ! i) w1") simp
  qed
  from Promise_all_values [where P = "\<lambda>w1. store w1 = store w" and f = "getValue J (Some kv)"
      and g = "\<lambda>k. entry_value J (fst (KVStore_get kv k (store w)))" and xs = keys and w = w
      and order = order] step
  obtain w' where "Promise_all order (getValue J (Some kv)) keys w
      = (Inr (map (\<lambda>k. entry_value J (fst (KVStore_get kv k (store w)))) keys), w')"
    and "store w' = store w" by blast
  then show ?thesis by (simp add: getMany_def js_try_def js_bind_def js_return_def)
qed

lemma getMany_api_of_read_only_server:
  assumes "\<And>k s. snd (api_fetch a (get_request a k) s) = s"
  shows "\<exists>w'. getMany_api J a order keys w
            = (Inr (map (\<lambda>k. response_value J (fst (api_fetch a (get_request a k) (store w)))) keys), w')
          \<and> store w' = store w"
proof -
  have step: "\<exists>w2. getValue_api J a (keys ! i) w1
                  = (Inr (response_value J (fst (api_fetch a (get_request a (keys ! i)) (store w)))), w2)
                \<and> store w2 = store w"
    if "store w1 = store w" for i w1
  proof -
    obtain r s' where g: "api_fetch a (get_request a (keys ! i)) (store w1) = (r, s')"
      by (cases "api_fetch a (get_request a (keys ! i)) (store w1)")
    with assms [of "keys ! i" "store w1"] have s: "s' = store w1" by simp
    from getValue_api_answer [OF g, of J] g s that show ?thesis
      by (cases "getValue_api J a (keys ! i) w1") simp
  qed
  from Promise_all_values [where P = "\<lambda>w1. store w1 = store w" and f = "getValue_api J a"
      and g = "\<lambda>k. response_value J (fst (api_fetch a (get_request a k) (store w)))" and xs = keys
      and w = w and order = order] step
  obtain w' where "Promise_all order (getValue_api J a) keys w
      = (Inr (map (\<lambda>k. response_value J (fst (api_fetch a (get_request a k) (store w)))) keys), w')"
    and "store w' = store w" by blast
  then show ?thesis by (simp add: getMany_api_def js_bind_def js_return_def)
qed

lemma getMany_unreadable:
  "\<exists>rs w'. getMany J (Some kv) order keys w = (Inr rs, w') \<and> length rs = length keys
     \<and> (\<forall>i<length keys. (\<forall>s. isl (fst (KVStore_get kv (keys ! i) s))) \<longrightarrow> rs ! i = JNull)"
proof -
  have step: "\<exists>y w2. getValue J (Some kv) (keys ! i) w1 = (Inr y, w2)
                \<and> ((\<forall>s. isl (fst (KVStore_get kv (keys ! i) s))) \<longrightarrow> y = JNull) \<and> True"
    for i w1
  proof -
    obtain r s' where g: "KVStore_get kv (keys ! i) (store w1) = (r, s')"
      by (cases "KVStore_get kv (keys ! i) (store w1)")
    from getValue_value [OF g, of J] obtain w2 where
      v: "getValue J (Some kv) (keys ! i) w1 = (Inr (entry_value J r), w2)"
      by (cases "getValue J (Some kv) (keys ! i) w1") simp
    have "entry_value J r = JNull" if "\<forall>s. isl (fst (KVStore_get kv (keys ! i) s))"
    proof -
      from that g have "isl r" by (metis fst_conv)
      then show ?thesis by (cases r) simp_all
    qed
    with v show ?thesis by blast
  qed
  from Promise_all_rel [where P = "\<lambda>w1. True" and f = "getValue J (Some kv)" and xs = keys
      and Q = "\<lambda>i y. (\<forall>s. isl (fst (KVStore_get kv (keys ! i) s))) \<longrightarrow> y = JNull"
      and w = w and order = order] step
  obtain rs w' where "Promise_all order (getValue J (Some kv)) keys w = (Inr rs, w')"
    "length rs = length keys"
    "\<forall>i<length keys. (\<forall>s. isl (fst (KVStore_get kv (keys ! i) s))) \<longrightarrow> rs ! i = JNull"
    by blast
  then show ?thesis by (simp add: getMany_def js_try_def js_bind_def js_return_def)
qed

lemma table_store_read_only: "snd (KVStore_get table_store k s) = s"
  by (simp add: table_store_def)

lemma table_store_entry_value:
  "entry_value J (fst (KVStore_get table_store k s)) = stored_value J (map_of s k)"
  by (cases "map_of s k") (simp_all add: table_store_def stored_value_def)

lemma rest_api_read_only:
  "snd (api_fetch (rest_api storeId apiToken) (get_request (rest_api storeId apiToken) k) s) = s"
  by (simp add: rest_api_def rest_fetch_def get_request_def split: option.splits)

lemma rest_api_response_value:
  "response_value J (fst (api_fetch (rest_api storeId apiToken)
       (get_request (rest_api storeId apiToken) k) s))
     = stored_value J (map_of s (key_url (rest_api storeId apiToken) k))"
  by (cases "map_of s (key_url (rest_api storeId apiToken) k)")
     (simp_all add: rest_api_def rest_fetch_def get_request_def response_value_def
        stored_value_def resp_ok_def)

text \<open>
  C5: \<open>getMany\<close> returns a list as long as the list of keys whose \<open>i\<close>-th element is
  the value stored under the \<open>i\<close>-th key, whatever the order in which the reads complete,
  in both wrappers: the value that the answer of the store (of the API) to the read of
  that key denotes, which is \<open>null\<close> when the key is absent and when the read fails. The
  store is one whose reads leave the stored data as they are, as the table store and the
  REST server are; in any store, the element of a key whose read always throws is
  \<open>null\<close>.
\<close>

theorem getMany_aligned:
  "((\<forall>k s. snd (KVStore_get kv k s) = s) \<longrightarrow>
      (\<exists>w'. getMany J (Some kv) order keys w
              = (Inr (map (\<lambda>k. entry_value J (fst (KVStore_get kv k (store w)))) keys), w')))
   \<and> ((\<forall>k s. snd (api_fetch a (get_request a k) s) = s) \<longrightarrow>
      (\<exists>u'. getMany_api J a order keys u
              = (Inr (map (\<lambda>k. response_value J (fst (api_fetch a (get_request a k) (store u))))
                       keys), u')))
   \<and> (\<exists>rs w'. getMany J (Some kv) order keys w = (Inr rs, w') \<and> length rs = length keys
        \<and> (\<forall>i<length keys. (\<forall>s. isl (fst (KVStore_get kv (keys ! i) s))) \<longrightarrow> rs ! i = JNull))
   \<and> (\<exists>t'. getMany J (Some table_store) order keys t
              = (Inr (map (\<lambda>k. stored_value J (map_of (store t) k)) keys), t')
            \<and> store t' = store t)
   \<and> (\<exists>t'. getMany_api J (rest_api storeId apiToken) order keys t
              = (Inr (map (\<lambda>k. stored_value J
                                 (map_of (store t) (key_url (rest_api storeId apiToken) k)))
                       keys), t')
            \<and> store t' = store t)"
proof (intro conjI impI)
  assume "\<forall>k s. snd (KVStore_get kv k s) = s"
  then show "\<exists>w'. getMany J (Some kv) order keys w
              = (Inr (map (\<lambda>k. entry_value J (fst (KVStore_get kv k (store w)))) keys), w')"
    using getMany_of_read_only_store [of kv J order keys w] by blast
next
  assume "\<forall>k s. snd (api_fetch a (get_request a k) s) = s"
  then show "\<exists>u'. getMany_api J a order keys u
              = (Inr (map (\<lambda>k. response_value J (fst (api_fetch a (get_request a k) (store u))))
                       keys), u')"
    using getMany_api_of_read_only_server [of a J order keys u] by blast
next
  show "\<exists>rs w'. getMany J (Some kv) order keys w = (Inr rs, w') \<and> length rs = length keys
        \<and> (\<forall>i<length keys. (\<forall>s. isl (fst (KVStore_get kv (keys ! i) s))) \<longrightarrow> rs ! i = JNull)"
    by (rule getMany_unreadable)
next
  from getMany_of_read_only_store [of table_store J order keys t, OF table_store_read_only]
  show "\<exists>t'. getMany J (Some table_store) order keys t
              = (Inr (map (\<lambda>k. stored_value J (map_of (store t) k)) keys), t')
            \<and> store t' = store t"
    by (simp only: table_store_entry_value)
next
  from getMany_api_of_read_only_server [of "rest_api storeId apiToken" J order keys t,
      OF rest_api_read_only]
  show "\<exists>t'. getMany_api J (rest_api storeId apiToken) order keys t
              = (Inr (map (\<lambda>k. stored_value J
                                 (map_of (store t) (key_url (rest_api storeId apiToken) k)))
                       keys), t')
            \<and> store t' = store t"
    by (simp only: rest_api_response_value)
qed

theorem getMany_aligned_witness:
  "fst (getMany plain_JSON (Some table_store) [2, 0, 1] [''a'', ''k'', ''b'']
          \<lparr>store = [(''k'', ''1''), (''b'', ''2'')], console = []\<rparr>)
     = Inr [JNull, JNum 1, JNum 2]
   \<and> fst (getMany_api plain_JSON (rest_api ''s'' ''t'') [2, 0, 1] [''a'', ''k'', ''b'']
          \<lparr>store = [(''https://api.fastly.com/resources/stores/kv/s/keys/k'', ''1''),
                    (''https://api.fastly.com/resources/stores/kv/s/keys/b'', ''2'')],
            console = []\<rparr>)
     = Inr [JNull, JNum 1, JNum 2]
   \<and> fst (getMany plain_JSON
          (Some (table_store\<lparr>KVStore_get := \<lambda>key t.
                   if key = ''a'' then (Inl (Error ''unreadable''), t)
                   else KVStore_get table_store key t\<rparr>))
          [2, 0, 1] [''a'', ''k'', ''b'']
          \<lparr>store = [(''a'', ''7''), (''k'', ''1''), (''b'', ''2'')], console = []\<rparr>)
     = Inr [JNull, JNum 1, JNum 2]
   \<and> (\<exists>rs. fst (getMany plain_JSON
          (Some (table_store\<lparr>KVStore_get := \<lambda>key t.
                   if key = ''a'' then (Inl (Error ''unreadable''), t)
                   else KVStore_get table_store key t\<rparr>))
          [2, 0, 1] [''a'', ''k'', ''b'']
          \<lparr>store = [(''a'', ''7''), (''k'', ''1''), (''b'', ''2'')], console = []\<rparr>) = Inr rs
        \<and> length rs = 3 \<and> rs ! 0 = JNull)"
proof -
  let ?order = "[2, 0, 1] :: nat list"
  let ?keys = "[''a'', ''k'', ''b'']"
  let ?w = "\<lparr>store = [(''k'', ''1''), (''b'', ''2'')], console = []\<rparr> :: table world"
  let ?u = "\<lparr>store = [(''https://api.fastly.com/resources/stores/kv/s/keys/k'', ''1''),
                    (''https://api.fastly.com/resources/stores/kv/s/keys/b'', ''2'')],
            console = []\<rparr> :: table world"
  let ?B = "table_store\<lparr>KVStore_get := \<lambda>key t.
              if key = ''a'' then (Inl (Error ''unreadable''), t)
              else KVStore_get table_store key t\<rparr>"
  let ?v = "\<lparr>store = [(''a'', ''7''), (''k'', ''1''), (''b'', ''2'')], console = []\<rparr> :: table world"
  let ?A = "rest_api ''s'' ''t''"
  note T = getMany_aligned [where J = plain_JSON and order = ?order and keys = ?keys
      and t = ?w and storeId = "''s''" and apiToken = "''t''" and kv = ?B and w = ?v
      and a = ?A and u = ?u]
  note U = getMany_aligned [where J = plain_JSON and order = ?order and keys = ?keys
      and t = ?u and storeId = "''s''" and apiToken = "''t''"]
  have a: "map (\<lambda>k. stored_value plain_JSON (map_of (store ?w) k)) ?keys
             = [JNull, JNum 1, JNum 2]"
    by code_simp
  have b: "map (\<lambda>k. stored_value plain_JSON (map_of (store ?u) (key_url ?A k))) ?keys
             = [JNull, JNum 1, JNum 2]"
    by code_simp
  have c: "map (\<lambda>k. entry_value plain_JSON (fst (KVStore_get ?B k (store ?v)))) ?keys
             = [JNull, JNum 1, JNum 2]"
    by code_simp
  have d: "map (\<lambda>k. response_value plain_JSON (fst (api_fetch ?A (get_request ?A k) (store ?u))))
               ?keys
             = [JNull, JNum 1, JNum 2]"
    by code_simp
  have read_only: "\<forall>k s. snd (KVStore_get ?B k s) = s" by (simp add: table_store_def)
  have server_read_only: "\<forall>k s. snd (api_fetch ?A (get_request ?A k) s) = s"
    by (simp add: rest_api_read_only)
  have unreadable: "\<forall>s. isl (fst (KVStore_get ?B (?keys ! 0) s))" by simp
  from T [THEN conjunct2, THEN conjunct2, THEN conjunct2, THEN conjunct1]
  obtain t' where "getMany plain_JSON (Some table_store) ?order ?keys ?w
      = (Inr (map (\<lambda>k. stored_value plain_JSON (map_of (store ?w) k)) ?keys), t')"
    by blast
  with a have 1: "fst (getMany plain_JSON (Some table_store) ?order ?keys ?w)
      = Inr [JNull, JNum 1, JNum 2]" by simp
  from U [THEN conjunct2, THEN conjunct2, THEN conjunct2, THEN conjunct2]
  obtain u' where "getMany_api plain_JSON ?A ?order ?keys ?u
      = (Inr (map (\<lambda>k. stored_value plain_JSON (map_of (store ?u) (key_url ?A k))) ?keys), u')"
    by blast
  with b have 2: "fst (getMany_api plain_JSON ?A ?order ?keys ?u) = Inr [JNull, JNum 1, JNum 2]"
    by simp
  from T [THEN conjunct2, THEN conjunct1, THEN mp, OF server_read_only]
  obtain u'' where "getMany_api plain_JSON ?A ?order ?keys ?u
      = (Inr (map (\<lambda>k. response_value plain_JSON
                 (fst (api_fetch ?A (get_request ?A k) (store ?u)))) ?keys), u'')"
    by blast
  with d have "fst (getMany_api plain_JSON ?A ?order ?keys ?u) = Inr [JNull, JNum 1, JNum 2]"
    by simp
  from T [THEN conjunct1, THEN mp, OF read_only]
  obtain w' where "getMany plain_JSON (Some ?B) ?order ?keys ?v
      = (Inr (map (\<lambda>k. entry_value plain_JSON (fst (KVStore_get ?B k (store ?v)))) ?keys), w')"
    by blast
  with c have 3: "fst (getMany plain_JSON (Some ?B) ?order ?keys ?v) = Inr [JNull, JNum 1, JNum 2]"
    by simp
  from T [THEN conjunct2, THEN conjunct2, THEN conjunct1]
  obtain rs w'' where m: "getMany plain_JSON (Some ?B) ?order ?keys ?v = (Inr rs, w'')"
    and len: "length rs = length ?keys"
    and nulls: "\<forall>i<length ?keys. (\<forall>s. isl (fst (KVStore_get ?B (?keys ! i) s)))
                  \<longrightarrow> rs ! i = JNull"
    by blast
  from nulls unreadable have "rs ! 0 = JNull" by simp
  with m len have 4: "\<exists>rs. fst (getMany plain_JSON (Some ?B) ?order ?keys ?v) = Inr rs
        \<and> length rs = 3 \<and> rs ! 0 = JNull"
    by simp
  from 1 2 3 4 show ?thesis by (simp only: simp_thms)
qed

subsection \<open>Errors of the store\<close>



lemma plus_of_nothing: "js_plus J (js_or JNull (JNum 0)) (JNum n) = JNum (0 + n)"
  by (simp add: js_plus_def js_or_def of_number_def)

lemma minus_of_nothing: "js_minus J (js_or JNull (JNum 0)) (JNum n) = JNum (0 - n)"
  by (simp add: js_minus_def js_or_def of_number_def)









subsection \<open>Queue operations\<close>

text \<open>
  C6: the queue operations of both wrappers do nothing: \<open>pushItems\<close> returns nothing,
  \<open>popItems\<close> returns the empty list and \<open>getItemsCount\<close> returns 0, and each leaves
  the store and the console as they were.
\<close>

theorem queue_operations_do_nothing:
  "pushItems kvStore key items w = (Inr (), w)
   \<and> popItems kvStore key count w = (Inr [], w)
   \<and> getItemsCount kvStore key w = (Inr 0, w)
   \<and> pushItems_api a key items u = (Inr (), u)
   \<and> popItems_api a key count u = (Inr [], u)
   \<and> getItemsCount_api a key u = (Inr 0, u)"
  by (simp add: pushItems_def popItems_def getItemsCount_def pushItems_api_def popItems_api_def
      getItemsCount_api_def js_return_def)

subsection \<open>Operations on the table store\<close>

lemma getValue_table:
  "getValue J (Some table_store) key w =
     (case map_of (store w) key of
        None \<Rightarrow> (Inr JNull, w)
      | Some text \<Rightarrow>
          if text = [] then (Inr JNull, w)
          else (case JSON_parse J text of
                  Inr v \<Rightarrow> (Inr v, w)
                | Inl e \<Rightarrow> (Inr JNull,
                           logged (''Error getting key '' @ key @ '':'') e (store w) w)))"
  by (simp add: getValue_def kv_call_def table_store_def js_defs logged_def
      split: option.splits sum.splits)

lemma getValue_table_value:
  "fst (getValue J (Some table_store) key w) = Inr (stored_value J (map_of (store w) key))"
  by (simp add: getValue_table stored_value_def text_value_def split: option.splits sum.splits)

lemma getValue_table_store: "store (snd (getValue J (Some table_store) key w)) = store w"
  by (simp add: getValue_table logged_def split: option.splits sum.splits)

lemma setValue_table:
  assumes "JSON_stringify J v = Inr text"
  shows "setValue J (Some table_store) key v w
           = (Inr True, w\<lparr>store := AList.update key text (store w)\<rparr>)"
  using assms by (simp add: setValue_def kv_call_def table_store_def js_defs)

lemma del_table:
  "del (Some table_store) key w = (Inr True, w\<lparr>store := AList.delete key (store w)\<rparr>)"
  by (simp add: del_def kv_call_def table_store_def js_defs)

lemma getValue_rest:
  "getValue_api J (rest_api storeId apiToken) key u =
     (case map_of (store u) (key_url (rest_api storeId apiToken) key) of
        None \<Rightarrow> (Inr JNull, u)
      | Some text \<Rightarrow>
          if text = [] then (Inr JNull, u)
          else (case JSON_parse J text of
                  Inr v \<Rightarrow> (Inr v, u)
                | Inl e \<Rightarrow> (Inr JNull,
                    u\<lparr>console := console u
                        @ [ConsoleErrorMessage (''Error getting key '' @ key @ '':'') (message e)]\<rparr>)))"
  by (simp add: getValue_api_def rest_api_def rest_fetch_def resp_ok_def js_defs
      split: option.splits sum.splits)

lemma setValue_rest:
  assumes "JSON_stringify J v = Inr text"
  shows "setValue_api J (rest_api storeId apiToken) key v u
           = (Inr True,
              u\<lparr>store := AList.update (key_url (rest_api storeId apiToken) key) text (store u)\<rparr>)"
  using assms by (simp add: setValue_api_def rest_api_def rest_fetch_def resp_ok_def js_defs)

text \<open>
  C7: on a store that keeps what it is given, \<open>del(key)\<close> succeeds and a \<open>get(key)\<close>
  that follows it returns \<open>null\<close>.
\<close>

theorem del_then_get:
  "fst (del (Some table_store) key w) = Inr True
   \<and> fst (get J (Some table_store) key (snd (del (Some table_store) key w))) = Inr JNull"
  by (simp add: get_def getValue_table del_table delete_conv)

text \<open>
  C10: when the value stored under a key is not an array, \<open>itemContains\<close> returns
  \<open>false\<close>, \<open>getItems\<close> returns the empty list and \<open>removeItems\<close> returns nothing,
  and none of them throws or writes to the store: in any store, they return these and do
  nothing after the read that \<open>get\<close> does; in the table store, the stored data are left
  as they are, and when the stored text is the JSON of a value that is not an array,
  nothing is logged either.
\<close>

theorem set_operations_on_non_array:
  "(get J kvStore key w = (Inr v, w1) \<and> \<not> Array_isArray v \<longrightarrow>
      itemContains J kvStore key item w = (Inr False, w1)
      \<and> getItems J kvStore key w = (Inr [], w1)
      \<and> removeItems J kvStore key items w = (Inr (), w1))
   \<and> (\<not> Array_isArray (stored_value J (map_of (store t) key)) \<longrightarrow>
      fst (itemContains J (Some table_store) key item t) = Inr False
      \<and> fst (getItems J (Some table_store) key t) = Inr []
      \<and> fst (removeItems J (Some table_store) key items t) = Inr ()
      \<and> store (snd (itemContains J (Some table_store) key item t)) = store t
      \<and> store (snd (getItems J (Some table_store) key t)) = store t
      \<and> store (snd (removeItems J (Some table_store) key items t)) = store t)
   \<and> (map_of (store t) key = Some text \<and> text \<noteq> [] \<and> JSON_parse J text = Inr v
        \<and> \<not> Array_isArray v \<longrightarrow>
      itemContains J (Some table_store) key item t = (Inr False, t)
      \<and> getItems J (Some table_store) key t = (Inr [], t)
      \<and> removeItems J (Some table_store) key items t = (Inr (), t))"
proof -
  have 1: "get J kvStore key w = (Inr v, w1) \<and> \<not> Array_isArray v \<longrightarrow>
      itemContains J kvStore key item w = (Inr False, w1)
      \<and> getItems J kvStore key w = (Inr [], w1)
      \<and> removeItems J kvStore key items w = (Inr (), w1)"
  proof (rule impI)
    assume "get J kvStore key w = (Inr v, w1) \<and> \<not> Array_isArray v"
    then have g: "getValue J kvStore key w = (Inr v, w1)" and n: "\<not> Array_isArray v"
      by (simp_all add: get_def)
    from reads_of_non_array [OF g n]
    show "itemContains J kvStore key item w = (Inr False, w1)
      \<and> getItems J kvStore key w = (Inr [], w1)
      \<and> removeItems J kvStore key items w = (Inr (), w1)"
      by simp
  qed
  have 2: "\<not> Array_isArray (stored_value J (map_of (store t) key)) \<longrightarrow>
      fst (itemContains J (Some table_store) key item t) = Inr False
      \<and> fst (getItems J (Some table_store) key t) = Inr []
      \<and> fst (removeItems J (Some table_store) key items t) = Inr ()
      \<and> store (snd (itemContains J (Some table_store) key item t)) = store t
      \<and> store (snd (getItems J (Some table_store) key t)) = store t
      \<and> store (snd (removeItems J (Some table_store) key items t)) = store t"
  proof (rule impI)
    assume n: "\<not> Array_isArray (stored_value J (map_of (store t) key))"
    obtain t1 where g: "getValue J (Some table_store) key t
                          = (Inr (stored_value J (map_of (store t) key)), t1)"
      using getValue_table_value [of J key t] by (cases "getValue J (Some table_store) key t") simp
    with getValue_table_store [of J key t] have "store t1 = store t" by simp
    with reads_of_non_array [OF g n]
    show "fst (itemContains J (Some table_store) key item t) = Inr False
      \<and> fst (getItems J (Some table_store) key t) = Inr []
      \<and> fst (removeItems J (Some table_store) key items t) = Inr ()
      \<and> store (snd (itemContains J (Some table_store) key item t)) = store t
      \<and> store (snd (getItems J (Some table_store) key t)) = store t
      \<and> store (snd (removeItems J (Some table_store) key items t)) = store t"
      by simp
  qed
  have 3: "map_of (store t) key = Some text \<and> text \<noteq> [] \<and> JSON_parse J text = Inr v
        \<and> \<not> Array_isArray v \<longrightarrow>
      itemContains J (Some table_store) key item t = (Inr False, t)
      \<and> getItems J (Some table_store) key t = (Inr [], t)
      \<and> removeItems J (Some table_store) key items t = (Inr (), t)"
  proof (rule impI)
    assume a: "map_of (store t) key = Some text \<and> text \<noteq> [] \<and> JSON_parse J text = Inr v
        \<and> \<not> Array_isArray v"
    then have g: "getValue J (Some table_store) key t = (Inr v, t)" by (simp add: getValue_table)
    from a have n: "\<not> Array_isArray v" by simp
    from reads_of_non_array [OF g n]
    show "itemContains J (Some table_store) key item t = (Inr False, t)
      \<and> getItems J (Some table_store) key t = (Inr [], t)
      \<and> removeItems J (Some table_store) key items t = (Inr (), t)"
      by simp
  qed
  show ?thesis by (rule conjI [OF 1 conjI [OF 2 3]])
qed

theorem set_operations_on_non_array_witness:
  "itemContains plain_JSON (Some table_store) ''n'' (JNum 5)
       \<lparr>store = [(''n'', ''5''), (''o'', ''{}''), (''x'', ''{'')], console = []\<rparr>
     = (Inr False, \<lparr>store = [(''n'', ''5''), (''o'', ''{}''), (''x'', ''{'')], console = []\<rparr>)
   \<and> getItems plain_JSON (Some table_store) ''n''
       \<lparr>store = [(''n'', ''5''), (''o'', ''{}''), (''x'', ''{'')], console = []\<rparr>
     = (Inr [], \<lparr>store = [(''n'', ''5''), (''o'', ''{}''), (''x'', ''{'')], console = []\<rparr>)
   \<and> removeItems plain_JSON (Some table_store) ''n'' [JNum 5]
       \<lparr>store = [(''n'', ''5''), (''o'', ''{}''), (''x'', ''{'')], console = []\<rparr>
     = (Inr (), \<lparr>store = [(''n'', ''5''), (''o'', ''{}''), (''x'', ''{'')], console = []\<rparr>)
   \<and> getItems plain_JSON (Some cursor_store) ''o''
       \<lparr>store = [(''n'', ''5''), (''o'', ''{}''), (''x'', ''{'')], console = []\<rparr>
     = (Inr [], \<lparr>store = [(''n'', ''5''), (''o'', ''{}''), (''x'', ''{'')], console = []\<rparr>)
   \<and> fst (removeItems plain_JSON (Some table_store) ''x'' [JNum 5]
       \<lparr>store = [(''n'', ''5''), (''o'', ''{}''), (''x'', ''{'')], console = []\<rparr>) = Inr ()
   \<and> store (snd (removeItems plain_JSON (Some table_store) ''x'' [JNum 5]
       \<lparr>store = [(''n'', ''5''), (''o'', ''{}''), (''x'', ''{'')], console = []\<rparr>))
     = [(''n'', ''5''), (''o'', ''{}''), (''x'', ''{'')]"
proof -
  let ?t = "\<lparr>store = [(''n'', ''5''), (''o'', ''{}''), (''x'', ''{'')], console = []\<rparr> :: table world"
  have a: "map_of (store ?t) ''n'' = Some ''5'' \<and> ''5'' \<noteq> [] \<and> JSON_parse plain_JSON ''5'' = Inr (JNum 5)
        \<and> \<not> Array_isArray (JNum 5)"
    by code_simp
  have b: "get plain_JSON (Some cursor_store) ''o'' ?t = (Inr (JObj []), ?t)
        \<and> \<not> Array_isArray (JObj [])"
    by code_simp
  have c: "\<not> Array_isArray (stored_value plain_JSON (map_of (store ?t) ''x''))"
    by code_simp
  note T = set_operations_on_non_array [where J = plain_JSON and t = ?t and item = "JNum 5"
      and items = "[JNum 5]"]
  from T [where key = "''n''" and ?text = "''5''" and v = "JNum 5", THEN conjunct2, THEN conjunct2,
      THEN mp, OF a]
  have 1: "itemContains plain_JSON (Some table_store) ''n'' (JNum 5) ?t = (Inr False, ?t)
      \<and> getItems plain_JSON (Some table_store) ''n'' ?t = (Inr [], ?t)
      \<and> removeItems plain_JSON (Some table_store) ''n'' [JNum 5] ?t = (Inr (), ?t)" .
  from T [where key = "''o''" and v = "JObj []" and kvStore = "Some cursor_store" and w = ?t
      and ?w1.0 = ?t, THEN conjunct1, THEN mp, OF b]
  have 2: "getItems plain_JSON (Some cursor_store) ''o'' ?t = (Inr [], ?t)" by simp
  from T [where key = "''x''", THEN conjunct2, THEN conjunct1, THEN mp, OF c]
  have 3: "fst (removeItems plain_JSON (Some table_store) ''x'' [JNum 5] ?t) = Inr ()
      \<and> store (snd (removeItems plain_JSON (Some table_store) ''x'' [JNum 5] ?t))
          = [(''n'', ''5''), (''o'', ''{}''), (''x'', ''{'')]"
    by simp
  from 1 2 3 show ?thesis by (simp only: simp_thms)
qed

text \<open>
  C2: on a store that keeps what it is given, \<open>set(key, v)\<close> stores the JSON text of
  \<open>v\<close> under the key and returns \<open>true\<close>, and a \<open>get(key)\<close> that follows it returns
  the value of that text: what \<open>JSON.parse\<close> makes of what \<open>JSON.stringify\<close> made of
  \<open>v\<close>, and it leaves the store and the console as \<open>set\<close> left them.
\<close>

theorem set_then_get:
  assumes "JSON_stringify J v = Inr text"
  shows "set_op J (Some table_store) key v w
           = (Inr True, w\<lparr>store := AList.update key text (store w)\<rparr>)
       \<and> fst (get J (Some table_store) key (snd (set_op J (Some table_store) key v w)))
           = Inr (text_value J text)
       \<and> (text \<noteq> [] \<and> JSON_parse J text = Inr v' \<longrightarrow>
            get J (Some table_store) key (snd (set_op J (Some table_store) key v w))
              = (Inr v', snd (set_op J (Some table_store) key v w)))"
proof -
  let ?w' = "w\<lparr>store := AList.update key text (store w)\<rparr>"
  have s: "set_op J (Some table_store) key v w = (Inr True, ?w')"
    using setValue_table [OF assms] by (simp add: set_op_def)
  have "map_of (store ?w') key = Some text" by (simp add: update_conv')
  then have g: "getValue J (Some table_store) key ?w' =
                  (if text = [] then (Inr JNull, ?w')
                   else (case JSON_parse J text of
                           Inr v \<Rightarrow> (Inr v, ?w')
                         | Inl e \<Rightarrow> (Inr JNull,
                             logged (''Error getting key '' @ key @ '':'') e (store ?w') ?w')))"
    by (simp only: getValue_table option.case)
  from g have 1: "fst (get J (Some table_store) key ?w') = Inr (text_value J text)"
    by (simp add: get_def text_value_def split: sum.splits)
  from g have 2: "text \<noteq> [] \<and> JSON_parse J text = Inr v' \<longrightarrow>
            get J (Some table_store) key ?w' = (Inr v', ?w')"
    by (simp add: get_def)
  from s 1 2 show ?thesis by (simp only: snd_conv simp_thms)
qed

theorem set_then_get_witness:
  "JSON_stringify plain_JSON (JObj [(''a'', JNum 1)])
     = Inr (''{'' @ [CHR 0x22] @ ''a'' @ [CHR 0x22] @ '':1}'')
   \<and> set_op plain_JSON (Some table_store) ''k'' (JObj [(''a'', JNum 1)])
       \<lparr>store = [(''k'', ''0'')], console = []\<rparr>
     = (Inr True,
        \<lparr>store = [(''k'', ''{'' @ [CHR 0x22] @ ''a'' @ [CHR 0x22] @ '':1}'')], console = []\<rparr>)
   \<and> get plain_JSON (Some table_store) ''k''
       (snd (set_op plain_JSON (Some table_store) ''k'' (JObj [(''a'', JNum 1)])
          \<lparr>store = [(''k'', ''0'')], console = []\<rparr>))
     = (Inr (JObj [(''a'', JNum 1)]),
        \<lparr>store = [(''k'', ''{'' @ [CHR 0x22] @ ''a'' @ [CHR 0x22] @ '':1}'')], console = []\<rparr>)"
proof -
  let ?v = "JObj [(''a'', JNum 1)]"
  let ?text = "''{'' @ [CHR 0x22] @ ''a'' @ [CHR 0x22] @ '':1}''"
  let ?w = "\<lparr>store = [(''k'', ''0'')], console = []\<rparr> :: table world"
  have s: "JSON_stringify plain_JSON ?v = Inr ?text" by code_simp
  have p: "?text \<noteq> [] \<and> JSON_parse plain_JSON ?text = Inr ?v" by code_simp
  have u: "?w\<lparr>store := AList.update ''k'' ?text (store ?w)\<rparr>
             = \<lparr>store = [(''k'', ?text)], console = []\<rparr>"
    by code_simp
  note T = set_then_get [OF s, of "''k''" ?w ?v]
  from T [THEN conjunct1] u
  have 1: "set_op plain_JSON (Some table_store) ''k'' ?v ?w
             = (Inr True, \<lparr>store = [(''k'', ?text)], console = []\<rparr>)"
    by (simp only:)
  from T [THEN conjunct2, THEN conjunct2, THEN mp, OF p] 1
  have 2: "get plain_JSON (Some table_store) ''k'' (snd (set_op plain_JSON (Some table_store) ''k'' ?v ?w))
             = (Inr ?v, \<lparr>store = [(''k'', ?text)], console = []\<rparr>)"
    by (simp only: snd_conv)
  from s 1 2 show ?thesis by (simp only: simp_thms)
qed

subsection \<open>Counters\<close>

lemma incr_api_after_get:
  assumes "getValue_api J a key u = (Inr cur, u1)"
    and "setValue_api J a key (js_plus J (js_or cur (JNum 0)) (JNum (amount n))) u1 = (Inr b, u2)"
  shows "incr_api J a key n u = (Inr (js_plus J (js_or cur (JNum 0)) (JNum (amount n))), u2)"
  using assms by (simp add: incr_api_def js_bind_def js_return_def Let_def)

lemma decr_api_after_get:
  assumes "getValue_api J a key u = (Inr cur, u1)"
    and "setValue_api J a key (js_minus J (js_or cur (JNum 0)) (JNum (amount n))) u1 = (Inr b, u2)"
  shows "decr_api J a key n u = (Inr (js_minus J (js_or cur (JNum 0)) (JNum (amount n))), u2)"
  using assms by (simp add: decr_api_def js_bind_def js_return_def Let_def)

text \<open>
  C4: when nothing is stored under the key, \<open>incr(key, n)\<close> returns \<open>0 + n\<close> and stores
  its JSON text under the key, and \<open>decr(key, n)\<close> returns \<open>0 - n\<close> and stores its JSON
  text under the key, in both wrappers, for every \<open>n\<close>; nothing is logged.
\<close>

theorem incr_decr_from_zero:
  assumes "JSON_stringify J (JNum (0 + n)) = Inr tp"
    and "JSON_stringify J (JNum (0 - n)) = Inr tm"
  shows "(map_of (store w) key = None \<longrightarrow>
            incr J (Some table_store) key (Some n) w
              = (Inr (JNum (0 + n)), w\<lparr>store := AList.update key tp (store w)\<rparr>)
            \<and> decr J (Some table_store) key (Some n) w
              = (Inr (JNum (0 - n)), w\<lparr>store := AList.update key tm (store w)\<rparr>))
       \<and> (map_of (store u) (key_url (rest_api storeId apiToken) key) = None \<longrightarrow>
            incr_api J (rest_api storeId apiToken) key (Some n) u
              = (Inr (JNum (0 + n)),
                 u\<lparr>store := AList.update (key_url (rest_api storeId apiToken) key) tp (store u)\<rparr>)
            \<and> decr_api J (rest_api storeId apiToken) key (Some n) u
              = (Inr (JNum (0 - n)),
                 u\<lparr>store := AList.update (key_url (rest_api storeId apiToken) key) tm (store u)\<rparr>))"
proof -
  have 1: "map_of (store w) key = None \<longrightarrow>
            incr J (Some table_store) key (Some n) w
              = (Inr (JNum (0 + n)), w\<lparr>store := AList.update key tp (store w)\<rparr>)
            \<and> decr J (Some table_store) key (Some n) w
              = (Inr (JNum (0 - n)), w\<lparr>store := AList.update key tm (store w)\<rparr>)"
  proof (rule impI)
    assume "map_of (store w) key = None"
    then have g: "getValue J (Some table_store) key w = (Inr JNull, w)"
      by (simp add: getValue_table)
    have a: "amount (Some n) = n" by (simp add: amount_def)
    from incr_after_get [OF g, of "Some n"] decr_after_get [OF g, of "Some n"]
      setValue_table [OF assms(1), of key w] setValue_table [OF assms(2), of key w]
    show "incr J (Some table_store) key (Some n) w
              = (Inr (JNum (0 + n)), w\<lparr>store := AList.update key tp (store w)\<rparr>)
            \<and> decr J (Some table_store) key (Some n) w
              = (Inr (JNum (0 - n)), w\<lparr>store := AList.update key tm (store w)\<rparr>)"
      by (simp only: plus_of_nothing minus_of_nothing a snd_conv simp_thms)
  qed
  have 2: "map_of (store u) (key_url (rest_api storeId apiToken) key) = None \<longrightarrow>
            incr_api J (rest_api storeId apiToken) key (Some n) u
              = (Inr (JNum (0 + n)),
                 u\<lparr>store := AList.update (key_url (rest_api storeId apiToken) key) tp (store u)\<rparr>)
            \<and> decr_api J (rest_api storeId apiToken) key (Some n) u
              = (Inr (JNum (0 - n)),
                 u\<lparr>store := AList.update (key_url (rest_api storeId apiToken) key) tm (store u)\<rparr>)"
  proof (rule impI)
    let ?a = "rest_api storeId apiToken"
    assume "map_of (store u) (key_url ?a key) = None"
    then have g: "getValue_api J ?a key u = (Inr JNull, u)"
      by (simp add: getValue_rest)
    have a: "amount (Some n) = n" by (simp add: amount_def)
    have p: "setValue_api J ?a key (js_plus J (js_or JNull (JNum 0)) (JNum (amount (Some n)))) u
               = (Inr True, u\<lparr>store := AList.update (key_url ?a key) tp (store u)\<rparr>)"
      using setValue_rest [OF assms(1), of storeId apiToken key u]
      by (simp only: plus_of_nothing a)
    have m: "setValue_api J ?a key (js_minus J (js_or JNull (JNum 0)) (JNum (amount (Some n)))) u
               = (Inr True, u\<lparr>store := AList.update (key_url ?a key) tm (store u)\<rparr>)"
      using setValue_rest [OF assms(2), of storeId apiToken key u]
      by (simp only: minus_of_nothing a)
    from incr_api_after_get [OF g p] decr_api_after_get [OF g m]
    show "incr_api J ?a key (Some n) u
              = (Inr (JNum (0 + n)), u\<lparr>store := AList.update (key_url ?a key) tp (store u)\<rparr>)
            \<and> decr_api J ?a key (Some n) u
              = (Inr (JNum (0 - n)), u\<lparr>store := AList.update (key_url ?a key) tm (store u)\<rparr>)"
      by (simp only: plus_of_nothing minus_of_nothing a simp_thms)
  qed
  show ?thesis by (rule conjI [OF 1 2])
qed

theorem incr_decr_from_zero_witness:
  "incr plain_JSON (Some table_store) ''n'' (Some 3) \<lparr>store = [], console = []\<rparr>
     = (Inr (JNum 3), \<lparr>store = [(''n'', ''3'')], console = []\<rparr>)
   \<and> decr plain_JSON (Some table_store) ''n'' (Some 3) \<lparr>store = [], console = []\<rparr>
     = (Inr (JNum (- 3)), \<lparr>store = [(''n'', ''-3'')], console = []\<rparr>)
   \<and> incr_api plain_JSON (rest_api ''s'' ''t'') ''n'' (Some 3) \<lparr>store = [], console = []\<rparr>
     = (Inr (JNum 3),
        \<lparr>store = [(''https://api.fastly.com/resources/stores/kv/s/keys/n'', ''3'')],
         console = []\<rparr>)
   \<and> decr_api plain_JSON (rest_api ''s'' ''t'') ''n'' (Some 3) \<lparr>store = [], console = []\<rparr>
     = (Inr (JNum (- 3)),
        \<lparr>store = [(''https://api.fastly.com/resources/stores/kv/s/keys/n'', ''-3'')],
         console = []\<rparr>)"
proof -
  let ?w = "\<lparr>store = [], console = []\<rparr> :: table world"
  have p: "JSON_stringify plain_JSON (JNum (0 + 3)) = Inr ''3''" by code_simp
  have m: "JSON_stringify plain_JSON (JNum (0 - 3)) = Inr ''-3''" by code_simp
  have a: "map_of (store ?w) ''n'' = None" by simp
  have b: "map_of (store ?w) (key_url (rest_api ''s'' ''t'') ''n'') = None" by simp
  have url: "key_url (rest_api ''s'' ''t'') ''n''
               = ''https://api.fastly.com/resources/stores/kv/s/keys/n''"
    by code_simp
  note T = incr_decr_from_zero [OF p m, where w = ?w and u = ?w and key = "''n''"
      and storeId = "''s''" and apiToken = "''t''"]
  from T [THEN conjunct1, THEN mp, OF a]
  have 1: "incr plain_JSON (Some table_store) ''n'' (Some 3) ?w
             = (Inr (JNum 3), \<lparr>store = [(''n'', ''3'')], console = []\<rparr>)
           \<and> decr plain_JSON (Some table_store) ''n'' (Some 3) ?w
             = (Inr (JNum (- 3)), \<lparr>store = [(''n'', ''-3'')], console = []\<rparr>)"
    by simp
  from T [THEN conjunct2, THEN mp, OF b] url
  have 2: "incr_api plain_JSON (rest_api ''s'' ''t'') ''n'' (Some 3) ?w
             = (Inr (JNum 3),
                \<lparr>store = [(''https://api.fastly.com/resources/stores/kv/s/keys/n'', ''3'')],
                 console = []\<rparr>)
           \<and> decr_api plain_JSON (rest_api ''s'' ''t'') ''n'' (Some 3) ?w
             = (Inr (JNum (- 3)),
                \<lparr>store = [(''https://api.fastly.com/resources/stores/kv/s/keys/n'', ''-3'')],
                 console = []\<rparr>)"
    by simp
  from 1 2 show ?thesis by (simp only: simp_thms)
qed

subsection \<open>Sets\<close>
















subsection \<open>The request handler\<close>

lemma getConfig_total: "\<exists>cfg w'. getConfig p w = (Inr cfg, w')"
  by (auto simp: getConfig_def js_defs Let_def split: prod.splits sum.splits option.splits)

lemma getConfig_value: "fst (getConfig p w) = fst (getConfig p w')"
  by (auto simp: getConfig_def js_defs Let_def split: prod.splits sum.splits option.splits)

lemma handleRequest_routes:
  assumes "fst (getConfig p w) = Inr cfg"
  shows "\<exists>w1. store w1 = store w
           \<and> handleRequest p url w =
               (case KVStore_new p (KV_STORE_NAME cfg) of
                  Inl error \<Rightarrow>
                    (Inr \<lparr>status = 500, content_type = ''text/plain'',
                          body = PlainText (''Error: KV Store '' @ [CHR 0x22] @ KV_STORE_NAME cfg
                            @ [CHR 0x22] @ '' not found. Please create it in the Fastly dashboard.''
                            @ [CHR 0x0A, CHR 0x0A] @ ''Error: '' @ message error)\<rparr>, w1)
                | Inr kvStore \<Rightarrow>
                    if pathname url = ''/'' then handleHomePage url cfg w1
                    else if pathname url = ''/get-treatment''
                      then handleGetTreatment p url kvStore cfg w1
                    else if pathname url = ''/status'' then handleStatus kvStore cfg w1
                    else (Inr \<lparr>status = 404, content_type = ''text/plain'',
                               body = PlainText ''Not found''\<rparr>, w1))"
proof -
  let ?w0 = "snd (console_log (''FASTLY_SERVICE_VERSION: ''
          @ or_default (Some (env p ''FASTLY_SERVICE_VERSION'')) ''local'') w)"
  obtain cfg' w1 where c: "getConfig p ?w0 = (Inr cfg', w1)"
    using getConfig_total by blast
  with assms getConfig_value [of p w ?w0] have "cfg' = cfg" by simp
  have "store (snd (getConfig p ?w0)) = store ?w0"
    by (auto simp: getConfig_def js_defs Let_def split: prod.splits sum.splits option.splits)
  with c have "store w1 = store w" by (simp add: console_log_def)
  moreover from c \<open>cfg' = cfg\<close>
  have "handleRequest p url w =
               (case KVStore_new p (KV_STORE_NAME cfg) of
                  Inl error \<Rightarrow>
                    (Inr \<lparr>status = 500, content_type = ''text/plain'',
                          body = PlainText (''Error: KV Store '' @ [CHR 0x22] @ KV_STORE_NAME cfg
                            @ [CHR 0x22] @ '' not found. Please create it in the Fastly dashboard.''
                            @ [CHR 0x0A, CHR 0x0A] @ ''Error: '' @ message error)\<rparr>, w1)
                | Inr kvStore \<Rightarrow>
                    if pathname url = ''/'' then handleHomePage url cfg w1
                    else if pathname url = ''/get-treatment''
                      then handleGetTreatment p url kvStore cfg w1
                    else if pathname url = ''/status'' then handleStatus kvStore cfg w1
                    else (Inr \<lparr>status = 404, content_type = ''text/plain'',
                               body = PlainText ''Not found''\<rparr>, w1))"
    by (simp add: handleRequest_def js_bind_def js_return_def console_log_def split: sum.splits)
  ultimately show ?thesis by blast
qed

lemma handleStatus_answer:
  assumes "KVStore_list kv \<lparr>opt_prefix = None, opt_limit = Some 10\<rparr> (store w) = (r, s')"
  shows "handleStatus kv cfg w =
           (case r of
              Inl e \<Rightarrow>
                (Inr \<lparr>status = 500, content_type = ''text/plain'',
                      body = PlainText (''Error checking status: '' @ message e)\<rparr>,
                 w\<lparr>store := s'\<rparr>)
            | Inr (EntryIterable ks) \<Rightarrow>
                (Inr \<lparr>status = 200, content_type = ''text/html; charset=utf-8'',
                      body = StatusPage ks cfg\<rparr>, w\<lparr>store := s'\<rparr>)
            | Inr (ListPage l c) \<Rightarrow>
                (Inr \<lparr>status = 500, content_type = ''text/plain'',
                      body = PlainText ''Error checking status: cursor is not async iterable''\<rparr>,
                 w\<lparr>store := s'\<rparr>))"
  using assms by (simp add: handleStatus_def js_defs split: sum.splits list_result.splits)

lemma handleStatus_lists:
  assumes "honours_limit kv"
  shows "\<exists>r w'. handleStatus kv cfg w = (Inr r, w') \<and> length (listed_keys r) \<le> 10"
proof -
  let ?opts = "\<lparr>opt_prefix = None, opt_limit = Some 10\<rparr>"
  obtain c s' where l: "KVStore_list kv ?opts (store w) = (c, s')"
    by (cases "KVStore_list kv ?opts (store w)")
  show ?thesis
  proof (cases c)
    case (Inl e)
    with handleStatus_answer [OF l, of cfg] show ?thesis by simp
  next
    case (Inr cursor)
    from assms have "case fst (KVStore_list kv ?opts (store w)) of
                       Inl e \<Rightarrow> True | Inr r \<Rightarrow> length (result_keys r) \<le> 10"
      unfolding honours_limit_def by (metis list_options.select_convs(2))
    with l Inr have "length (result_keys cursor) \<le> 10" by simp
    with Inr handleStatus_answer [OF l, of cfg] show ?thesis
      by (cases cursor) simp_all
  qed
qed

lemma honours_limit_cursor_store: "honours_limit cursor_store"
  by (simp add: honours_limit_def cursor_store_def table_store_def list_keys_def)

text \<open>
  C8: when the platform has the KV store that the configuration names, a request whose
  path is none of \<open>/\<close>, \<open>/get-treatment\<close> and \<open>/status\<close> is answered with status 404
  and the text \<open>Not found\<close>, and a request for \<open>/status\<close> is answered by the status
  handler (without that store every request is answered with status 500). The status
  handler asks the store for at most 10 keys and answers with a page that lists the keys
  of the entries the store gives it, all of them and in their order: at most 10 for a store
  whose listings hold no more keys than the limit asked for, and the first 10 keys of the
  table for the table store that lists entries. When the store throws, and when its
  listing is a \<open>{ list, cursor }\<close> object, which cannot be iterated, the handler
  answers with status 500 and lists no key.
\<close>

theorem unknown_path_404_and_status_lists_ten:
  "(fst (getConfig p w) = Inr cfg \<and> KVStore_new p (KV_STORE_NAME cfg) = Inr kv
      \<and> pathname url \<noteq> ''/'' \<and> pathname url \<noteq> ''/get-treatment'' \<and> pathname url \<noteq> ''/status''
      \<longrightarrow> fst (handleRequest p url w)
            = Inr \<lparr>status = 404, content_type = ''text/plain'', body = PlainText ''Not found''\<rparr>
          \<and> store (snd (handleRequest p url w)) = store w)
   \<and> (fst (getConfig p w) = Inr cfg \<and> KVStore_new p (KV_STORE_NAME cfg) = Inr kv
      \<and> pathname url = ''/status''
      \<longrightarrow> (\<exists>w1. store w1 = store w \<and> handleRequest p url w = handleStatus kv cfg w1))
   \<and> (fst (getConfig p w) = Inr cfg \<and> isl (KVStore_new p (KV_STORE_NAME cfg))
      \<longrightarrow> (\<exists>r. fst (handleRequest p url w) = Inr r \<and> status r = 500))
   \<and> (KVStore_list kv \<lparr>opt_prefix = None, opt_limit = Some 10\<rparr> (store w)
        = (Inr (EntryIterable ks), s')
      \<longrightarrow> handleStatus kv cfg w
            = (Inr \<lparr>status = 200, content_type = ''text/html; charset=utf-8'',
                    body = StatusPage ks cfg\<rparr>, w\<lparr>store := s'\<rparr>))
   \<and> (KVStore_list kv \<lparr>opt_prefix = None, opt_limit = Some 10\<rparr> (store w)
        = (Inr (ListPage l c), s')
      \<longrightarrow> handleStatus kv cfg w
            = (Inr \<lparr>status = 500, content_type = ''text/plain'',
                    body = PlainText ''Error checking status: cursor is not async iterable''\<rparr>,
               w\<lparr>store := s'\<rparr>))
   \<and> (KVStore_list kv \<lparr>opt_prefix = None, opt_limit = Some 10\<rparr> (store w) = (Inl e, s')
      \<longrightarrow> handleStatus kv cfg w
            = (Inr \<lparr>status = 500, content_type = ''text/plain'',
                    body = PlainText (''Error checking status: '' @ message e)\<rparr>,
               w\<lparr>store := s'\<rparr>))
   \<and> (honours_limit kv
      \<longrightarrow> (\<exists>r w'. handleStatus kv cfg w = (Inr r, w') \<and> length (listed_keys r) \<le> 10))
   \<and> handleStatus cursor_store cfg t
       = (Inr \<lparr>status = 200, content_type = ''text/html; charset=utf-8'',
               body = StatusPage (take 10 (map fst (store t))) cfg\<rparr>, t)"
proof -
  have 1: "fst (getConfig p w) = Inr cfg \<and> KVStore_new p (KV_STORE_NAME cfg) = Inr kv
      \<and> pathname url \<noteq> ''/'' \<and> pathname url \<noteq> ''/get-treatment'' \<and> pathname url \<noteq> ''/status''
      \<longrightarrow> fst (handleRequest p url w)
            = Inr \<lparr>status = 404, content_type = ''text/plain'', body = PlainText ''Not found''\<rparr>
          \<and> store (snd (handleRequest p url w)) = store w"
  proof (rule impI)
    assume a: "fst (getConfig p w) = Inr cfg \<and> KVStore_new p (KV_STORE_NAME cfg) = Inr kv
      \<and> pathname url \<noteq> ''/'' \<and> pathname url \<noteq> ''/get-treatment'' \<and> pathname url \<noteq> ''/status''"
    with handleRequest_routes [of p w cfg url]
    show "fst (handleRequest p url w)
            = Inr \<lparr>status = 404, content_type = ''text/plain'', body = PlainText ''Not found''\<rparr>
          \<and> store (snd (handleRequest p url w)) = store w"
      by auto
  qed
  have 2: "fst (getConfig p w) = Inr cfg \<and> KVStore_new p (KV_STORE_NAME cfg) = Inr kv
      \<and> pathname url = ''/status''
      \<longrightarrow> (\<exists>w1. store w1 = store w \<and> handleRequest p url w = handleStatus kv cfg w1)"
  proof (rule impI)
    assume a: "fst (getConfig p w) = Inr cfg \<and> KVStore_new p (KV_STORE_NAME cfg) = Inr kv
      \<and> pathname url = ''/status''"
    with handleRequest_routes [of p w cfg url]
    show "\<exists>w1. store w1 = store w \<and> handleRequest p url w = handleStatus kv cfg w1"
      by auto
  qed
  have 3: "fst (getConfig p w) = Inr cfg \<and> isl (KVStore_new p (KV_STORE_NAME cfg))
      \<longrightarrow> (\<exists>r. fst (handleRequest p url w) = Inr r \<and> status r = 500)"
  proof (rule impI)
    assume a: "fst (getConfig p w) = Inr cfg \<and> isl (KVStore_new p (KV_STORE_NAME cfg))"
    then obtain e where "KVStore_new p (KV_STORE_NAME cfg) = Inl e"
      by (cases "KVStore_new p (KV_STORE_NAME cfg)") auto
    with a handleRequest_routes [of p w cfg url]
    show "\<exists>r. fst (handleRequest p url w) = Inr r \<and> status r = 500"
      by auto
  qed
  have 4: "KVStore_list kv \<lparr>opt_prefix = None, opt_limit = Some 10\<rparr> (store w)
        = (Inr (EntryIterable ks), s')
      \<longrightarrow> handleStatus kv cfg w
            = (Inr \<lparr>status = 200, content_type = ''text/html; charset=utf-8'',
                    body = StatusPage ks cfg\<rparr>, w\<lparr>store := s'\<rparr>)"
    using handleStatus_answer [of kv w "Inr (EntryIterable ks)" s' cfg] by simp
  have 5: "KVStore_list kv \<lparr>opt_prefix = None, opt_limit = Some 10\<rparr> (store w)
        = (Inr (ListPage l c), s')
      \<longrightarrow> handleStatus kv cfg w
            = (Inr \<lparr>status = 500, content_type = ''text/plain'',
                    body = PlainText ''Error checking status: cursor is not async iterable''\<rparr>,
               w\<lparr>store := s'\<rparr>)"
    using handleStatus_answer [of kv w "Inr (ListPage l c)" s' cfg] by simp
  have 6: "KVStore_list kv \<lparr>opt_prefix = None, opt_limit = Some 10\<rparr> (store w) = (Inl e, s')
      \<longrightarrow> handleStatus kv cfg w
            = (Inr \<lparr>status = 500, content_type = ''text/plain'',
                    body = PlainText (''Error checking status: '' @ message e)\<rparr>,
               w\<lparr>store := s'\<rparr>)"
    using handleStatus_answer [of kv w "Inl e" s' cfg] by simp
  have 7: "honours_limit kv
      \<longrightarrow> (\<exists>r w'. handleStatus kv cfg w = (Inr r, w') \<and> length (listed_keys r) \<le> 10)"
    using handleStatus_lists [of kv cfg w] by blast
  have "KVStore_list cursor_store \<lparr>opt_prefix = None, opt_limit = Some 10\<rparr> (store t)
          = (Inr (EntryIterable (take 10 (map fst (store t)))), store t)"
    by (simp add: cursor_store_def table_store_def list_keys_def)
  from handleStatus_answer [OF this, of cfg]
  have 8: "handleStatus cursor_store cfg t
       = (Inr \<lparr>status = 200, content_type = ''text/html; charset=utf-8'',
               body = StatusPage (take 10 (map fst (store t))) cfg\<rparr>, t)"
    by simp
  show ?thesis
    by (rule conjI [OF 1 conjI [OF 2 conjI [OF 3 conjI [OF 4 conjI [OF 5 conjI [OF 6
          conjI [OF 7 8]]]]]]])
qed

theorem unknown_path_404_and_status_lists_ten_witness:
  "fst (handleRequest
       \<lparr> env = (\<lambda>name. []), SecretStore_new = (\<lambda>name. Inl (Error ''no secret store'')),
         ConfigStore_new = (\<lambda>name. Inl (Error ''no config store'')),
         KVStore_new = (\<lambda>name. if name = ''split-storage'' then Inr cursor_store
                                 else Inl (Error ''no such store'')),
         Split_getTreatment = (\<lambda>sdkKey key kvStore flag. js_return ''on'') \<rparr>
       \<lparr>pathname = ''/sync'', searchParams = []\<rparr>
       \<lparr>store = [(''a'', ''1'')], console = []\<rparr>)
     = Inr \<lparr>status = 404, content_type = ''text/plain'', body = PlainText ''Not found''\<rparr>
   \<and> fst (handleRequest
       \<lparr> env = (\<lambda>name. []), SecretStore_new = (\<lambda>name. Inl (Error ''no secret store'')),
         ConfigStore_new = (\<lambda>name. Inl (Error ''no config store'')),
         KVStore_new = (\<lambda>name. if name = ''split-storage'' then Inr cursor_store
                                 else Inl (Error ''no such store'')),
         Split_getTreatment = (\<lambda>sdkKey key kvStore flag. js_return ''on'') \<rparr>
       \<lparr>pathname = ''/status'', searchParams = []\<rparr>
       \<lparr>store = [(''a'', ''1''), (''b'', ''1''), (''c'', ''1''), (''d'', ''1''), (''e'', ''1''),
                 (''f'', ''1''), (''g'', ''1''), (''h'', ''1''), (''i'', ''1''), (''j'', ''1''),
                 (''k'', ''1''), (''l'', ''1'')], console = []\<rparr>)
     = Inr \<lparr>status = 200, content_type = ''text/html; charset=utf-8'',
            body = StatusPage [''a'', ''b'', ''c'', ''d'', ''e'', ''f'', ''g'', ''h'', ''i'', ''j'']
                     DEFAULTS\<rparr>
   \<and> (\<exists>r. fst (handleRequest
       \<lparr> env = (\<lambda>name. []), SecretStore_new = (\<lambda>name. Inl (Error ''no secret store'')),
         ConfigStore_new = (\<lambda>name. Inl (Error ''no config store'')),
         KVStore_new = (\<lambda>name. Inl (Error ''no such store'')),
         Split_getTreatment = (\<lambda>sdkKey key kvStore flag. js_return ''on'') \<rparr>
       \<lparr>pathname = ''/sync'', searchParams = []\<rparr>
       \<lparr>store = [(''a'', ''1'')], console = []\<rparr>) = Inr r \<and> status r = 500)
   \<and> fst (handleStatus table_store DEFAULTS \<lparr>store = [(''a'', ''1'')], console = []\<rparr>)
     = Inr \<lparr>status = 500, content_type = ''text/plain'',
            body = PlainText ''Error checking status: cursor is not async iterable''\<rparr>
   \<and> fst (handleStatus (failing_store (Error ''unavailable'')) DEFAULTS
       \<lparr>store = [(''a'', ''1'')], console = []\<rparr>)
     = Inr \<lparr>status = 500, content_type = ''text/plain'',
            body = PlainText ''Error checking status: unavailable''\<rparr>
   \<and> length (listed_keys (projr (fst (handleStatus cursor_store DEFAULTS
       \<lparr>store = [(''a'', ''1''), (''b'', ''1''), (''c'', ''1''), (''d'', ''1''), (''e'', ''1''),
                 (''f'', ''1''), (''g'', ''1''), (''h'', ''1''), (''i'', ''1''), (''j'', ''1''),
                 (''k'', ''1''), (''l'', ''1'')], console = []\<rparr>)))) \<le> 10"
proof -
  let ?p = "\<lparr> env = (\<lambda>name. []), SecretStore_new = (\<lambda>name. Inl (Error ''no secret store'')),
         ConfigStore_new = (\<lambda>name. Inl (Error ''no config store'')),
         KVStore_new = (\<lambda>name. if name = ''split-storage'' then Inr cursor_store
                                 else Inl (Error ''no such store'')),
         Split_getTreatment = (\<lambda>sdkKey key kvStore flag. js_return ''on'') \<rparr> :: table platform"
  let ?q = "\<lparr> env = (\<lambda>name. []), SecretStore_new = (\<lambda>name. Inl (Error ''no secret store'')),
         ConfigStore_new = (\<lambda>name. Inl (Error ''no config store'')),
         KVStore_new = (\<lambda>name. Inl (Error ''no such store'')),
         Split_getTreatment = (\<lambda>sdkKey key kvStore flag. js_return ''on'') \<rparr> :: table platform"
  let ?sync = "\<lparr>pathname = ''/sync'', searchParams = []\<rparr>"
  let ?status = "\<lparr>pathname = ''/status'', searchParams = []\<rparr>"
  let ?w = "\<lparr>store = [(''a'', ''1'')], console = []\<rparr> :: table world"
  let ?w12 = "\<lparr>store = [(''a'', ''1''), (''b'', ''1''), (''c'', ''1''), (''d'', ''1''), (''e'', ''1''),
                 (''f'', ''1''), (''g'', ''1''), (''h'', ''1''), (''i'', ''1''), (''j'', ''1''),
                 (''k'', ''1''), (''l'', ''1'')], console = []\<rparr> :: table world"
  let ?F = "failing_store (Error ''unavailable'') :: table KVStore"
  have cp: "fst (getConfig ?p w) = Inr DEFAULTS" for w
    by (simp add: getConfig_def js_defs DEFAULTS_def or_default_def)
  have cq: "fst (getConfig ?q w) = Inr DEFAULTS" for w
    by (simp add: getConfig_def js_defs DEFAULTS_def or_default_def)
  have kp: "KVStore_new ?p (KV_STORE_NAME DEFAULTS) = Inr cursor_store"
    by (simp add: DEFAULTS_def)
  have kq: "isl (KVStore_new ?q (KV_STORE_NAME DEFAULTS))" by simp
  have a: "fst (getConfig ?p ?w) = Inr DEFAULTS
      \<and> KVStore_new ?p (KV_STORE_NAME DEFAULTS) = Inr cursor_store
      \<and> pathname ?sync \<noteq> ''/'' \<and> pathname ?sync \<noteq> ''/get-treatment''
      \<and> pathname ?sync \<noteq> ''/status''"
    using cp kp by simp
  from unknown_path_404_and_status_lists_ten [where p = ?p and w = ?w and cfg = DEFAULTS
      and kv = cursor_store and url = ?sync, THEN conjunct1, THEN mp, OF a]
  have 1: "fst (handleRequest ?p ?sync ?w)
     = Inr \<lparr>status = 404, content_type = ''text/plain'', body = PlainText ''Not found''\<rparr>"
    by (rule conjunct1)
  have b: "fst (getConfig ?p ?w12) = Inr DEFAULTS
      \<and> KVStore_new ?p (KV_STORE_NAME DEFAULTS) = Inr cursor_store
      \<and> pathname ?status = ''/status''"
    using cp kp by simp
  from unknown_path_404_and_status_lists_ten [where p = ?p and w = ?w12 and cfg = DEFAULTS
      and kv = cursor_store and url = ?status, THEN conjunct2, THEN conjunct1, THEN mp, OF b]
  obtain w1 where w1: "store w1 = store ?w12"
    and r: "handleRequest ?p ?status ?w12 = handleStatus cursor_store DEFAULTS w1"
    by blast
  from unknown_path_404_and_status_lists_ten [where cfg = DEFAULTS and t = w1,
      THEN conjunct2, THEN conjunct2, THEN conjunct2, THEN conjunct2, THEN conjunct2,
      THEN conjunct2, THEN conjunct2] w1 r
  have 2: "fst (handleRequest ?p ?status ?w12)
     = Inr \<lparr>status = 200, content_type = ''text/html; charset=utf-8'',
            body = StatusPage [''a'', ''b'', ''c'', ''d'', ''e'', ''f'', ''g'', ''h'', ''i'', ''j'']
                     DEFAULTS\<rparr>"
    by simp
  have c: "fst (getConfig ?q ?w) = Inr DEFAULTS \<and> isl (KVStore_new ?q (KV_STORE_NAME DEFAULTS))"
    using cq kq by simp
  from unknown_path_404_and_status_lists_ten [where p = ?q and w = ?w and cfg = DEFAULTS
      and url = ?sync, THEN conjunct2, THEN conjunct2, THEN conjunct1, THEN mp, OF c]
  have 3: "\<exists>r. fst (handleRequest ?q ?sync ?w) = Inr r \<and> status r = 500" .
  have d: "KVStore_list table_store \<lparr>opt_prefix = None, opt_limit = Some 10\<rparr> (store ?w)
        = (Inr (ListPage (Some [''a'']) None), store ?w)"
    by (simp add: table_store_def list_keys_def)
  from unknown_path_404_and_status_lists_ten [where kv = table_store and w = ?w
      and cfg = DEFAULTS, THEN conjunct2, THEN conjunct2, THEN conjunct2, THEN conjunct2,
      THEN conjunct1, THEN mp, OF d]
  have 4: "fst (handleStatus table_store DEFAULTS ?w)
     = Inr \<lparr>status = 500, content_type = ''text/plain'',
            body = PlainText ''Error checking status: cursor is not async iterable''\<rparr>"
    by simp
  have e: "KVStore_list ?F \<lparr>opt_prefix = None, opt_limit = Some 10\<rparr> (store ?w)
        = (Inl (Error ''unavailable''), store ?w)"
    by (simp add: failing_store_def)
  from unknown_path_404_and_status_lists_ten [where kv = ?F and w = ?w
      and cfg = DEFAULTS, THEN conjunct2, THEN conjunct2, THEN conjunct2, THEN conjunct2,
      THEN conjunct2, THEN conjunct1, THEN mp, OF e]
  have 5: "fst (handleStatus ?F DEFAULTS ?w)
     = Inr \<lparr>status = 500, content_type = ''text/plain'',
            body = PlainText ''Error checking status: unavailable''\<rparr>"
    by simp
  have f: "KVStore_list cursor_store \<lparr>opt_prefix = None, opt_limit = Some 10\<rparr> (store ?w12)
        = (Inr (EntryIterable [''a'', ''b'', ''c'', ''d'', ''e'', ''f'', ''g'', ''h'', ''i'', ''j'']),
           store ?w12)"
    by (simp add: cursor_store_def table_store_def list_keys_def)
  from unknown_path_404_and_status_lists_ten [where kv = cursor_store and w = ?w12
      and cfg = DEFAULTS, THEN conjunct2, THEN conjunct2, THEN conjunct2, THEN conjunct1,
      THEN mp, OF f]
  have "fst (handleStatus cursor_store DEFAULTS ?w12)
     = Inr \<lparr>status = 200, content_type = ''text/html; charset=utf-8'',
            body = StatusPage [''a'', ''b'', ''c'', ''d'', ''e'', ''f'', ''g'', ''h'', ''i'', ''j'']
                     DEFAULTS\<rparr>"
    by simp
  from unknown_path_404_and_status_lists_ten [where kv = cursor_store and w = ?w12
      and cfg = DEFAULTS, THEN conjunct2, THEN conjunct2, THEN conjunct2, THEN conjunct2,
      THEN conjunct2, THEN conjunct2, THEN conjunct1, THEN mp, OF honours_limit_cursor_store]
  have "\<exists>r w'. handleStatus cursor_store DEFAULTS ?w12 = (Inr r, w') \<and> length (listed_keys r) \<le> 10" .
  then have 6: "length (listed_keys (projr (fst (handleStatus cursor_store DEFAULTS ?w12)))) \<le> 10"
    by auto
  from 1 2 3 4 5 6 show ?thesis by (simp only: simp_thms)
qed

subsection \<open>The synchronisation script\<close>

lemma announce_total: "\<exists>w'. announce storeId sdkKey w = (Inr (), w')"
  by (simp add: announce_def js_defs)

text \<open>
  C9: the script exits with status 1 when one of the three variables is undefined or
  empty, and otherwise with status 0 when the synchroniser calls back without an error and
  with status 1 when it throws or calls back with one.
\<close>

theorem sync_exit_status:
  "(falsy (FASTLY_API_TOKEN e) \<or> falsy (SPLIT_SDK_KEY_env e) \<or> falsy (KV_STORE_ID e)
      \<longrightarrow> fst (sync_to_kv execute fetch e w) = 1)
   \<and> (FASTLY_API_TOKEN e = Some apiToken \<and> apiToken \<noteq> []
        \<and> SPLIT_SDK_KEY_env e = Some sdkKey \<and> sdkKey \<noteq> []
        \<and> KV_STORE_ID e = Some storeId \<and> storeId \<noteq> []
      \<longrightarrow> fst (sync_to_kv execute fetch e w)
            = (if fst (execute sdkKey
                        \<lparr>api_fetch = fetch, api_storeId = storeId, api_apiToken = apiToken\<rparr>
                        (snd (announce storeId sdkKey w))) = Inr None
               then 0 else 1))"
proof (intro conjI impI)
  assume "falsy (FASTLY_API_TOKEN e) \<or> falsy (SPLIT_SDK_KEY_env e) \<or> falsy (KV_STORE_ID e)"
  then show "fst (sync_to_kv execute fetch e w) = 1"
    by (auto simp: sync_to_kv_def falsy_def split: option.splits)
next
  let ?wrapper = "\<lparr>api_fetch = fetch, api_storeId = storeId, api_apiToken = apiToken\<rparr>"
  assume a: "FASTLY_API_TOKEN e = Some apiToken \<and> apiToken \<noteq> []
        \<and> SPLIT_SDK_KEY_env e = Some sdkKey \<and> sdkKey \<noteq> []
        \<and> KV_STORE_ID e = Some storeId \<and> storeId \<noteq> []"
  obtain w1 where w1: "announce storeId sdkKey w = (Inr (), w1)"
    using announce_total by blast
  obtain r w2 where x: "execute sdkKey ?wrapper w1 = (r, w2)"
    by (cases "execute sdkKey ?wrapper w1")
  have "fst (syncHarnessFMEToFastly execute fetch apiToken sdkKey storeId w) = Inr ()
          \<longleftrightarrow> r = Inr None"
    using w1 x
    by (cases r; cases "projr r")
       (auto simp: syncHarnessFMEToFastly_def js_defs Let_def split: option.splits)
  moreover have "fst (sync_to_kv execute fetch e w)
      = (if fst (syncHarnessFMEToFastly execute fetch apiToken sdkKey storeId w) = Inr () then 0 else 1)"
    using a by (auto simp: sync_to_kv_def split: prod.splits sum.splits)
  ultimately show "fst (sync_to_kv execute fetch e w)
            = (if fst (execute sdkKey ?wrapper (snd (announce storeId sdkKey w))) = Inr None
               then 0 else 1)"
    using w1 x by simp
qed

theorem sync_exit_status_witness:
  "fst (sync_to_kv (\<lambda>sdkKey wrapper. js_return None) rest_fetch
         \<lparr>FASTLY_API_TOKEN = Some ''token'', SPLIT_SDK_KEY_env = Some ''sdk-key'',
           KV_STORE_ID = Some ''store''\<rparr> \<lparr>store = [], console = []\<rparr>) = 0
   \<and> fst (sync_to_kv (\<lambda>sdkKey wrapper. js_return (Some (Error ''timeout''))) rest_fetch
         \<lparr>FASTLY_API_TOKEN = Some ''token'', SPLIT_SDK_KEY_env = Some ''sdk-key'',
           KV_STORE_ID = Some ''store''\<rparr> \<lparr>store = [], console = []\<rparr>) = 1
   \<and> fst (sync_to_kv (\<lambda>sdkKey wrapper. js_throw (Error ''bad key'')) rest_fetch
         \<lparr>FASTLY_API_TOKEN = Some ''token'', SPLIT_SDK_KEY_env = Some ''sdk-key'',
           KV_STORE_ID = Some ''store''\<rparr> \<lparr>store = [], console = []\<rparr>) = 1
   \<and> fst (sync_to_kv (\<lambda>sdkKey wrapper. js_return None) rest_fetch
         \<lparr>FASTLY_API_TOKEN = Some ''token'', SPLIT_SDK_KEY_env = None,
           KV_STORE_ID = Some ''store''\<rparr> \<lparr>store = [], console = []\<rparr>) = 1"
proof -
  let ?e = "\<lparr>FASTLY_API_TOKEN = Some ''token'', SPLIT_SDK_KEY_env = Some ''sdk-key'',
           KV_STORE_ID = Some ''store''\<rparr>"
  let ?w = "\<lparr>store = [], console = []\<rparr> :: table world"
  note s = sync_exit_status [where e = ?e and w = ?w and fetch = rest_fetch
      and apiToken = "''token''" and sdkKey = "''sdk-key''" and storeId = "''store''"]
  have "fst (sync_to_kv (\<lambda>sdkKey wrapper. js_return None) rest_fetch ?e ?w) = 0"
    using s [where execute = "\<lambda>sdkKey wrapper. js_return None"] by (simp add: js_return_def)
  moreover have "fst (sync_to_kv (\<lambda>sdkKey wrapper. js_return (Some (Error ''timeout''))) rest_fetch ?e ?w) = 1"
    using s [where execute = "\<lambda>sdkKey wrapper. js_return (Some (Error ''timeout''))"]
    by (simp add: js_return_def)
  moreover have "fst (sync_to_kv (\<lambda>sdkKey wrapper. js_throw (Error ''bad key'')) rest_fetch ?e ?w) = 1"
    using s [where execute = "\<lambda>sdkKey wrapper. js_throw (Error ''bad key'')"]
    by (simp add: js_throw_def)
  moreover have "fst (sync_to_kv (\<lambda>sdkKey wrapper. js_return None) rest_fetch
         \<lparr>FASTLY_API_TOKEN = Some ''token'', SPLIT_SDK_KEY_env = None,
           KV_STORE_ID = Some ''store''\<rparr> ?w) = 1"
    using sync_exit_status [where e = "\<lparr>FASTLY_API_TOKEN = Some ''token'', SPLIT_SDK_KEY_env = None,
           KV_STORE_ID = Some ''store''\<rparr>" and w = ?w and fetch = rest_fetch
           and execute = "\<lambda>sdkKey wrapper. js_return None"]
    by (simp add: falsy_def)
  ultimately show ?thesis by simp
qed

end
